theory Spec2Isabelle
  imports Complex_Main
begin

section \<open>Travel-Agent: the client-side form handler and chat session\<close>

text \<open>
  The repository holds three versions of the same client script:
  \<^item> \<^verbatim>\<open>src/unnamed/part_000\<close>, the current script: the submit handler of
    \<^verbatim>\<open>travelForm\<close>, \<^verbatim>\<open>sendMessage\<close> and \<^verbatim>\<open>addMessageToChat\<close>;
  \<^item> \<^verbatim>\<open>src/script.js\<close> lines 1-54, the first version of the submit handler
    (suffix \<open>_v1\<close> below);
  \<^item> \<^verbatim>\<open>src/script.js\<close> lines 54-170, the second version of the submit handler and
    of the chat functions (suffix \<open>_v2\<close> below).
  Definitions without a suffix embed \<^verbatim>\<open>part_000\<close>. The two handlers of
  \<^verbatim>\<open>script.js\<close> are written for pages with different element ids (\<^verbatim>\<open>loading\<close> and
  \<^verbatim>\<open>numTravelers\<close> in the first, \<^verbatim>\<open>loadingSpinner\<close> and \<^verbatim>\<open>travelers\<close> in the second);
  each is modelled on its own, on a page that has the elements it reads.
\<close>

subsection \<open>Strings\<close>

text \<open>
  A JavaScript string is modelled as a HOL \<open>string\<close>; a \<open>char\<close> stands for a code unit
  below 256. Of the code units that \<^verbatim>\<open>trim\<close>, \<^verbatim>\<open>parseFloat\<close> and \<^verbatim>\<open>parseInt\<close> treat as
  white space or line terminators, these seven are below 256: TAB, LF, VT, FF, CR, SPACE
  and NBSP.
\<close>

definition is_ws :: "char \<Rightarrow> bool" where
  "is_ws c \<longleftrightarrow> (of_char c :: nat) \<in> {9, 10, 11, 12, 13, 32, 160}"

text \<open>\<^verbatim>\<open>String.prototype.trim\<close>: white space is removed at both ends.\<close>

definition trim :: "string \<Rightarrow> string" where
  "trim s = rev (dropWhile is_ws (rev (dropWhile is_ws s)))"

text \<open>
  \<^verbatim>\<open>s.split(',')\<close>: the substrings between the commas, in order. The empty string gives
  one empty token, and nothing is left out.
\<close>

fun split_comma :: "string \<Rightarrow> string list" where
  "split_comma [] = [[]]"
| "split_comma (c # cs) =
     (if c = CHR '','' then [] # split_comma cs
      else (case split_comma cs of
              [] \<Rightarrow> [[c]]
            | t # ts \<Rightarrow> (c # t) # ts))"

text \<open>\<^verbatim>\<open>Array.prototype.join(',')\<close>, the inverse of the split.\<close>

fun join_comma :: "string list \<Rightarrow> string" where
  "join_comma [] = []"
| "join_comma [t] = t"
| "join_comma (t # u # ts) = t @ CHR '','' # join_comma (u # ts)"

text \<open>The conversion of a value that may be \<^verbatim>\<open>undefined\<close> to a string, as \<^verbatim>\<open>+\<close> and
  template literals do it.\<close>

definition to_text :: "string option \<Rightarrow> string" where
  "to_text v = (case v of None \<Rightarrow> ''undefined'' | Some s \<Rightarrow> s)"

text \<open>Truthiness of a value that is \<^verbatim>\<open>undefined\<close> or a string: only a non-empty
  string is truthy.\<close>

definition truthy :: "string option \<Rightarrow> bool" where
  "truthy v = (case v of None \<Rightarrow> False | Some s \<Rightarrow> s \<noteq> [])"

subsection \<open>Numbers\<close>

text \<open>
  A JavaScript Number is \<^verbatim>\<open>NaN\<close>, an infinity, or a finite binary64 value, represented
  here by its exact rational value. The two zeros are identified: the scripts hand their
  Numbers to \<^verbatim>\<open>JSON.stringify\<close> only, which writes both as \<^verbatim>\<open>0\<close>.
\<close>

datatype jsnum = NaN | PosInfinity | NegInfinity | Num rat

text \<open>The number of binary digits of a positive integer.\<close>

function bit_length :: "int \<Rightarrow> nat" where
  "bit_length n = (if n \<le> 0 then 0 else Suc (bit_length (n div 2)))"
  by pat_completeness auto
termination
  by (relation "measure nat") auto

declare bit_length.simps [simp del]

definition pow2 :: "int \<Rightarrow> rat" where
  "pow2 k = (if 0 \<le> k then 2 ^ nat k else 1 / 2 ^ nat (- k))"

text \<open>For a positive \<open>a\<close>, the integer \<open>k\<close> with \<open>pow2 k \<le> a < pow2 (k + 1)\<close>.\<close>

definition floor_log2 :: "rat \<Rightarrow> int" where
  "floor_log2 a =
     (let k = int (bit_length (fst (quotient_of a)))
              - int (bit_length (snd (quotient_of a)))
      in if pow2 k \<le> a then k else k - 1)"

text \<open>The nearest integer, the even one of the two when they are equally near.\<close>

definition round_half_even :: "rat \<Rightarrow> int" where
  "round_half_even r =
     (let f = \<lfloor>r\<rfloor>; d = r - of_int f
      in if d < 1 / 2 then f
         else if 1 / 2 < d then f + 1
         else if even f then f else f + 1)"

text \<open>
  The Number value of a mathematical value: the nearest binary64 value, ties to the even
  significand. The significand has 53 bits and the least exponent of its unit is
  \<open>-1074\<close>, so small values round onto the subnormal grid and to zero; a result of
  \<open>2 ^ 1024\<close> or more is an infinity. (The standard lets an implementation round a
  numeral of more than 20 significant digits less exactly; the rounding here is the
  exact one.)
\<close>

definition number_value :: "rat \<Rightarrow> jsnum" where
  "number_value x =
     (if x = 0 then Num 0
      else
        (let a = \<bar>x\<bar>;
             e = max (floor_log2 a - 52) (- 1074);
             v = of_int (round_half_even (a / pow2 e)) * pow2 e
         in if pow2 1024 \<le> v then (if x < 0 then NegInfinity else PosInfinity)
            else Num (if x < 0 then - v else v)))"

definition is_digit :: "char \<Rightarrow> bool" where
  "is_digit c \<longleftrightarrow> 48 \<le> (of_char c :: nat) \<and> (of_char c :: nat) \<le> 57"

definition digit_val :: "char \<Rightarrow> nat" where
  "digit_val c = of_char c - 48"

definition is_hex_digit :: "char \<Rightarrow> bool" where
  "is_hex_digit c \<longleftrightarrow> is_digit c
     \<or> (65 \<le> (of_char c :: nat) \<and> (of_char c :: nat) \<le> 70)
     \<or> (97 \<le> (of_char c :: nat) \<and> (of_char c :: nat) \<le> 102)"

definition hex_val :: "char \<Rightarrow> nat" where
  "hex_val c = (if is_digit c then of_char c - 48
                else if (of_char c :: nat) \<le> 70 then of_char c - 55
                else of_char c - 87)"

text \<open>The value of a string of digits, most significant digit first.\<close>

definition decimal :: "string \<Rightarrow> nat" where
  "decimal ds = foldl (\<lambda>a c. 10 * a + digit_val c) 0 ds"

definition hexadecimal :: "string \<Rightarrow> nat" where
  "hexadecimal ds = foldl (\<lambda>a c. 16 * a + hex_val c) 0 ds"

text \<open>A leading sign: whether it is a minus, and the rest of the string.\<close>

fun strip_sign :: "string \<Rightarrow> bool \<times> string" where
  "strip_sign [] = (False, [])"
| "strip_sign (c # cs) =
     (if c = CHR ''-'' then (True, cs)
      else if c = CHR ''+'' then (False, cs)
      else (False, c # cs))"

definition signed :: "bool \<Rightarrow> rat \<Rightarrow> rat" where
  "signed neg v = (if neg then - v else v)"

text \<open>\<open>m\<close> times ten to the power \<open>e\<close>.\<close>

definition scale10 :: "nat \<Rightarrow> int \<Rightarrow> rat" where
  "scale10 m e = (if 0 \<le> e then of_nat m * 10 ^ nat e else of_nat m / 10 ^ nat (- e))"

text \<open>
  The exponent at the start of a string: \<^verbatim>\<open>e\<close> or \<^verbatim>\<open>E\<close>, an optional sign and at least
  one digit. Anything else is not part of the numeral and counts as exponent 0.
\<close>

definition exponent_part :: "string \<Rightarrow> int" where
  "exponent_part s =
     (case s of
        [] \<Rightarrow> 0
      | c # r \<Rightarrow>
          if c = CHR ''e'' \<or> c = CHR ''E'' then
            (let ds = takeWhile is_digit (snd (strip_sign r)) in
             if ds = [] then 0
             else if fst (strip_sign r) then - int (decimal ds) else int (decimal ds))
          else 0)"

text \<open>
  The value of the longest prefix that is an unsigned decimal numeral of the grammar of
  \<^verbatim>\<open>parseFloat\<close> (digits, an optional fraction, an optional exponent; or a dot, digits
  and an optional exponent), \<open>None\<close> when no prefix is one.
\<close>

definition unsigned_decimal :: "string \<Rightarrow> rat option" where
  "unsigned_decimal s =
     (let ip = takeWhile is_digit s; r1 = dropWhile is_digit s in
      case r1 of
        [] \<Rightarrow> if ip = [] then None else Some (scale10 (decimal ip) 0)
      | c # r2 \<Rightarrow>
          if c = CHR ''.'' then
            (let fp = takeWhile is_digit r2; r3 = dropWhile is_digit r2 in
             if ip = [] \<and> fp = [] then None
             else Some (scale10 (decimal (ip @ fp)) (exponent_part r3 - int (length fp))))
          else if ip = [] then None
          else Some (scale10 (decimal ip) (exponent_part r1)))"

text \<open>\<^verbatim>\<open>parseFloat(s)\<close>: leading white space is skipped, then the longest prefix that is
  a signed decimal numeral or a signed \<^verbatim>\<open>Infinity\<close> is read; the result is the Number
  value of the numeral, \<^verbatim>\<open>NaN\<close> when there is none.\<close>

definition parseFloat :: "string \<Rightarrow> jsnum" where
  "parseFloat s =
     (let t = dropWhile is_ws s; neg = fst (strip_sign t); u = snd (strip_sign t) in
      if take 8 u = ''Infinity'' then (if neg then NegInfinity else PosInfinity)
      else (case unsigned_decimal u of
              None \<Rightarrow> NaN
            | Some v \<Rightarrow> number_value (signed neg v)))"

text \<open>\<^verbatim>\<open>parseInt(s)\<close> without a radix: leading white space and a sign are skipped; after
  \<^verbatim>\<open>0x\<close> or \<^verbatim>\<open>0X\<close> the digits are hexadecimal, otherwise decimal; the longest prefix of
  digits is read and the result is the Number value of the integer it denotes; \<^verbatim>\<open>NaN\<close>
  when the prefix is empty.\<close>

definition parseInt :: "string \<Rightarrow> jsnum" where
  "parseInt s =
     (let t = dropWhile is_ws s; neg = fst (strip_sign t); u = snd (strip_sign t) in
      if take 2 u = ''0x'' \<or> take 2 u = ''0X'' then
        (let hs = takeWhile is_hex_digit (drop 2 u) in
         if hs = [] then NaN else number_value (signed neg (of_nat (hexadecimal hs))))
      else
        (let ds = takeWhile is_digit u in
         if ds = [] then NaN else number_value (signed neg (of_nat (decimal ds)))))"

subsection \<open>Request bodies\<close>

text \<open>
  The values that occur as properties of the object literals handed to
  \<^verbatim>\<open>JSON.stringify\<close>, and the JSON value that the serialised text denotes. The
  serialisation leaves out a property whose value is \<^verbatim>\<open>undefined\<close> and writes \<^verbatim>\<open>null\<close>
  for a Number that is not finite; the order of the properties is kept. \<open>JNum r\<close> is the
  numeral written for the finite Number of value \<open>r\<close>.
\<close>

datatype jsval = VUndefined | VBool bool | VNum jsnum | VStr string | VStrs "string list"

datatype json = JNull | JBool bool | JNum rat | JStr string | JArr "json list"
  | JObj "(string \<times> json) list"

definition of_opt :: "string option \<Rightarrow> jsval" where
  "of_opt v = (case v of None \<Rightarrow> VUndefined | Some s \<Rightarrow> VStr s)"

fun to_json :: "jsval \<Rightarrow> json option" where
  "to_json VUndefined = None"
| "to_json (VBool b) = Some (JBool b)"
| "to_json (VNum (Num r)) = Some (JNum r)"
| "to_json (VNum n) = Some JNull"
| "to_json (VStr s) = Some (JStr s)"
| "to_json (VStrs ss) = Some (JArr (map JStr ss))"

fun JSON_properties :: "(string \<times> jsval) list \<Rightarrow> (string \<times> json) list" where
  "JSON_properties [] = []"
| "JSON_properties ((k, v) # kvs) =
     (case to_json v of
        None \<Rightarrow> JSON_properties kvs
      | Some j \<Rightarrow> (k, j) # JSON_properties kvs)"

definition JSON_stringify :: "(string \<times> jsval) list \<Rightarrow> json" where
  "JSON_stringify obj = JObj (JSON_properties obj)"

record request =
  url :: string
  http_method :: string
  content_type :: string
  body :: json

definition post :: "string \<Rightarrow> (string \<times> jsval) list \<Rightarrow> request" where
  "post u obj = \<lparr>url = u, http_method = ''POST'', content_type = ''application/json'',
     body = JSON_stringify obj\<rparr>"

subsection \<open>Responses\<close>

text \<open>
  What \<^verbatim>\<open>await response.json()\<close> yields, with the fields the scripts read, typed as
  the interface of the service gives them: \<open>d_success\<close> is the truthiness of
  \<^verbatim>\<open>data.success\<close> (false when the field is absent); every other field is a string or
  absent (\<^verbatim>\<open>undefined\<close>).
\<close>

record data =
  d_success :: bool
  d_plan :: "string option"
  d_flight_details :: "string option"
  d_error :: "string option"
  d_detail :: "string option"
  d_response :: "string option"

text \<open>
  How the two awaits of a handler end: \<^verbatim>\<open>fetch\<close> rejects (with the message of the
  error), or it resolves to a response with its \<^verbatim>\<open>ok\<close> flag, whose body either is not
  JSON (\<^verbatim>\<open>response.json()\<close> rejects, with a message) or parses to data.
\<close>

datatype json_body = Unparseable string | Parsed data

datatype fetch_result = Rejected string | Responded bool json_body

subsection \<open>The page\<close>

text \<open>The values of the form controls. \<open>includeFlights\<close> is \<open>None\<close> when the page has
  no such checkbox, otherwise its \<^verbatim>\<open>checked\<close> state.\<close>

record form =
  source :: string
  destination :: string
  startDate :: string
  endDate :: string
  budget :: string
  numTravelers :: string
  travelers :: string
  interests :: string
  includeFlights :: "bool option"

text \<open>The global variables of the script (\<^verbatim>\<open>part_000\<close> lines 1-8).\<close>

record snapshot =
  currentTravelPlan :: "string option"
  currentBudget :: jsnum
  currentTravelers :: jsnum
  currentInterests :: "string list"
  currentIncludeFlights :: bool
  currentSource :: string
  currentDestination :: string
  currentStartDate :: string

definition initial_globals :: snapshot where
  "initial_globals = \<lparr>currentTravelPlan = Some [], currentBudget = Num 0,
     currentTravelers = Num 1, currentInterests = [], currentIncludeFlights = False,
     currentSource = [], currentDestination = [], currentStartDate = []\<rparr>"

text \<open>A child of \<^verbatim>\<open>chatMessages\<close>, as \<^verbatim>\<open>addMessageToChat\<close> creates it.\<close>

record message_div =
  className :: string
  innerHTML :: string

text \<open>
  The state a handler reads and writes: the form, the globals, the \<^verbatim>\<open>marked\<close> library
  (\<open>None\<close> when the global \<^verbatim>\<open>marked\<close> is not defined, otherwise its \<^verbatim>\<open>parse\<close> on
  strings), the properties of the elements the scripts touch, and two logs: the alerts
  shown and the requests issued by \<^verbatim>\<open>fetch\<close>, oldest first. Console output and scroll
  positions are not part of the state.
\<close>

record page =
  form :: form
  globals :: snapshot
  marked :: "(string \<Rightarrow> string) option"
  loading_display :: string
  loadingSpinner_hidden :: bool
  result_display :: string
  result_hidden :: bool
  planContent :: string
  chatMessages :: "message_div list"
  chatBox_hidden :: bool
  flightDetails_hidden :: bool
  flightContent :: string
  chatInput :: string
  alerts :: "string list"
  requests :: "request list"

definition alert :: "string \<Rightarrow> page \<Rightarrow> page" where
  "alert m pg = pg\<lparr>alerts := alerts pg @ [m]\<rparr>"

definition fetch :: "request \<Rightarrow> page \<Rightarrow> page" where
  "fetch r pg = pg\<lparr>requests := requests pg @ [r]\<rparr>"

text \<open>
  \<^verbatim>\<open>marked.parse(x)\<close>: a ReferenceError when \<^verbatim>\<open>marked\<close> is not defined; the library
  throws when its argument is \<^verbatim>\<open>undefined\<close>, with a message of two lines. \<open>Inl\<close>
  carries the message of the error.
\<close>

definition marked_undefined_message :: string where
  "marked_undefined_message =
     ''marked(): input parameter is undefined or null'' @ [CHR 0x0A]
     @ ''Please report this to https://github.com/markedjs/marked.''"

definition marked_parse :: "page \<Rightarrow> string option \<Rightarrow> string + string" where
  "marked_parse pg x =
     (case marked pg of
        None \<Rightarrow> Inl ''marked is not defined''
      | Some mp \<Rightarrow>
          (case x of
             None \<Rightarrow> Inl marked_undefined_message
           | Some s \<Rightarrow> Inr (mp s)))"

subsection \<open>The submit handler of \<^verbatim>\<open>part_000\<close>\<close>

text \<open>
  A handler runs in two steps: up to its \<^verbatim>\<open>fetch\<close> (\<open>_begin\<close>), and from the end of
  its awaits on (\<open>_settle\<close>). The constants the first step binds are kept for the second
  in a record, as the closure keeps them; the page may have changed in between.
\<close>

record pending =
  p_source :: string
  p_destination :: string
  p_startDate :: string
  p_endDate :: string
  p_budget :: jsnum
  p_numTravelers :: jsnum
  p_interests :: "string list"
  p_includeFlights :: bool

text \<open>Lines 18-25.\<close>

definition read_form :: "page \<Rightarrow> pending" where
  "read_form pg =
     \<lparr>p_source = source (form pg),
      p_destination = destination (form pg),
      p_startDate = startDate (form pg),
      p_endDate = endDate (form pg),
      p_budget = parseFloat (budget (form pg)),
      p_numTravelers = parseInt (numTravelers (form pg)),
      p_interests = map trim (split_comma (interests (form pg))),
      p_includeFlights = (case includeFlights (form pg) of None \<Rightarrow> False | Some b \<Rightarrow> b)\<rparr>"

text \<open>Lines 33-42, the object handed to \<^verbatim>\<open>JSON.stringify\<close>.\<close>

definition trip_payload :: "pending \<Rightarrow> (string \<times> jsval) list" where
  "trip_payload p =
     [(''source'', VStr (p_source p)),
      (''destination'', VStr (p_destination p)),
      (''start_date'', VStr (p_startDate p)),
      (''end_date'', VStr (p_endDate p)),
      (''budget'', VNum (p_budget p)),
      (''num_travelers'', VNum (p_numTravelers p)),
      (''interests'', VStrs (p_interests p)),
      (''include_flights'', VBool (p_includeFlights p))]"

text \<open>Lines 11-43.\<close>

definition travelForm_submit_begin :: "page \<Rightarrow> page \<times> pending" where
  "travelForm_submit_begin pg =
     (let pg1 = pg\<lparr>loading_display := ''block'', result_display := ''none''\<rparr>;
          p = read_form pg1
      in (fetch (post ''http://localhost:8000/plan-trip'' (trip_payload p)) pg1, p))"

text \<open>
  Lines 48-72, the branch of a truthy \<^verbatim>\<open>data.success\<close>: the page reached, and the
  message of the error thrown on the way, if any.
\<close>

definition show_plan :: "pending \<Rightarrow> data \<Rightarrow> page \<Rightarrow> page \<times> string option" where
  "show_plan p d pg =
     (case (case marked pg of
              Some mp \<Rightarrow> marked_parse pg (d_plan d)
            | None \<Rightarrow> Inr (''<pre>'' @ to_text (d_plan d) @ ''</pre>'')) of
        Inl e \<Rightarrow> (pg, Some e)
      | Inr html \<Rightarrow>
          (let pg1 = pg\<lparr>planContent := html,
                        chatMessages := [],
                        globals := \<lparr>currentTravelPlan = d_plan d,
                                    currentBudget = p_budget p,
                                    currentTravelers = p_numTravelers p,
                                    currentInterests = p_interests p,
                                    currentIncludeFlights = p_includeFlights p,
                                    currentSource = p_source p,
                                    currentDestination = p_destination p,
                                    currentStartDate = p_startDate p\<rparr>,
                        chatBox_hidden := False\<rparr>
           in if truthy (d_flight_details d) then
                (case marked_parse pg1 (d_flight_details d) of
                   Inl e \<Rightarrow> (pg1, Some e)
                 | Inr fhtml \<Rightarrow>
                     (pg1\<lparr>flightContent := fhtml, flightDetails_hidden := False,
                          result_display := ''block'', result_hidden := False\<rparr>, None))
              else
                (pg1\<lparr>flightDetails_hidden := True,
                     result_display := ''block'', result_hidden := False\<rparr>, None)))"

text \<open>Lines 74-78, the branch of a falsy \<^verbatim>\<open>data.success\<close>.\<close>

definition error_text :: "data \<Rightarrow> string" where
  "error_text d =
     (if truthy (d_error d) then to_text (d_error d)
      else ''Error generating travel plan. Please try again.'')"

definition show_error :: "data \<Rightarrow> page \<Rightarrow> page" where
  "show_error d pg =
     pg\<lparr>planContent := ''<span style='color:red;'>'' @ error_text d @ ''</span>'',
        result_display := ''block'', result_hidden := False\<rparr>"

text \<open>Lines 45-85: the \<^verbatim>\<open>try\<close> from the first await on, its \<^verbatim>\<open>catch\<close> and
  \<^verbatim>\<open>finally\<close>.\<close>

definition travelForm_submit_settle :: "pending \<Rightarrow> fetch_result \<Rightarrow> page \<Rightarrow> page" where
  "travelForm_submit_settle p r pg =
     (let pg' =
        (case r of
           Rejected m \<Rightarrow> alert (''Error connecting to the server: '' @ m) pg
         | Responded ok (Unparseable m) \<Rightarrow> alert (''Error connecting to the server: '' @ m) pg
         | Responded ok (Parsed d) \<Rightarrow>
             if d_success d then
               (case show_plan p d pg of
                  (pg1, None) \<Rightarrow> pg1
                | (pg1, Some e) \<Rightarrow> alert (''Error connecting to the server: '' @ e) pg1)
             else show_error d pg)
      in pg'\<lparr>loading_display := ''none''\<rparr>)"

text \<open>A submission whose response arrives before any other event.\<close>

definition travelForm_submit :: "fetch_result \<Rightarrow> page \<Rightarrow> page" where
  "travelForm_submit r pg =
     travelForm_submit_settle (snd (travelForm_submit_begin pg)) r
       (fst (travelForm_submit_begin pg))"

subsection \<open>The chat functions of \<^verbatim>\<open>part_000\<close>\<close>

text \<open>How a step of \<^verbatim>\<open>sendMessage\<close> ends: it returned, it awaits the response to the
  request it issued, or it threw (the promise of the async function is rejected); in each
  case \<open>page_of\<close> is the page it leaves.\<close>

datatype outcome =
    is_Returned: Returned (page_of: page)
  | is_Awaiting: Awaiting (page_of: page)
  | is_Thrown: Thrown (page_of: page) (thrown: string)

text \<open>Lines 141-148. The element is appended only after \<^verbatim>\<open>marked.parse\<close> returned, so
  an error leaves the page as it was.\<close>

definition addMessageToChat :: "string option \<Rightarrow> bool \<Rightarrow> page \<Rightarrow> string + page" where
  "addMessageToChat message isUser pg =
     (case marked_parse pg message of
        Inl e \<Rightarrow> Inl e
      | Inr html \<Rightarrow>
          Inr (pg\<lparr>chatMessages := chatMessages pg @
                 [\<lparr>className = ''message '' @ (if isUser then ''user-message'' else ''ai-message'')
                                @ '' '' @ (if isUser then ''user'' else ''ai''),
                   innerHTML = html\<rparr>]\<rparr>))"

text \<open>Lines 116-126, the object handed to \<^verbatim>\<open>JSON.stringify\<close>.\<close>

definition chat_payload :: "snapshot \<Rightarrow> string \<Rightarrow> (string \<times> jsval) list" where
  "chat_payload g message =
     [(''question'', VStr message),
      (''travel_plan'', of_opt (currentTravelPlan g)),
      (''budget'', VNum (currentBudget g)),
      (''travelers'', VNum (currentTravelers g)),
      (''interests'', VStrs (currentInterests g)),
      (''include_flights'', VBool (currentIncludeFlights g)),
      (''source'', VStr (currentSource g)),
      (''destination'', VStr (currentDestination g)),
      (''start_date'', VStr (currentStartDate g))]"

text \<open>Lines 89-127.\<close>

definition sendMessage_begin :: "page \<Rightarrow> outcome" where
  "sendMessage_begin pg =
     (let message = trim (chatInput pg) in
      if message = [] then Returned pg
      else
        (let pg1 = pg\<lparr>chatInput := []\<rparr> in
         case addMessageToChat (Some message) True pg1 of
           Inl e \<Rightarrow> Thrown pg1 e
         | Inr pg2 \<Rightarrow>
             Awaiting (fetch (post ''http://localhost:8000/chat''
                                (chat_payload (globals pg2) message)) pg2)))"

text \<open>Lines 136-138, the \<^verbatim>\<open>catch\<close>: an error thrown here leaves the function.\<close>

definition sendMessage_catch :: "page \<Rightarrow> outcome" where
  "sendMessage_catch pg =
     (case addMessageToChat (Some ''Error connecting to the server. Please try again.'')
             False pg of
        Inl e \<Rightarrow> Thrown pg e
      | Inr pg' \<Rightarrow> Returned pg')"

text \<open>Lines 129-138.\<close>

definition sendMessage_settle :: "fetch_result \<Rightarrow> page \<Rightarrow> outcome" where
  "sendMessage_settle r pg =
     (case r of
        Rejected m \<Rightarrow> sendMessage_catch pg
      | Responded ok (Unparseable m) \<Rightarrow> sendMessage_catch pg
      | Responded ok (Parsed d) \<Rightarrow>
          (case (if ok then addMessageToChat (d_response d) False pg
                 else addMessageToChat
                        (Some ''Sorry, I couldn't process your question. Please try again.'')
                        False pg) of
             Inl e \<Rightarrow> sendMessage_catch pg
           | Inr pg' \<Rightarrow> Returned pg'))"

text \<open>A call whose response arrives before any other event.\<close>

definition sendMessage :: "fetch_result \<Rightarrow> page \<Rightarrow> outcome" where
  "sendMessage r pg =
     (case sendMessage_begin pg of
        Awaiting pg1 \<Rightarrow> sendMessage_settle r pg1
      | Returned pg1 \<Rightarrow> Returned pg1
      | Thrown pg1 e \<Rightarrow> Thrown pg1 e)"

text \<open>Lines 151-155, the keypress handler of \<^verbatim>\<open>chatInput\<close>.\<close>

definition chatInput_keypress :: "string \<Rightarrow> page \<Rightarrow> outcome" where
  "chatInput_keypress key pg = (if key = ''Enter'' then sendMessage_begin pg else Returned pg)"

subsection \<open>The first version of the submit handler (\<^verbatim>\<open>script.js\<close> lines 1-54)\<close>

text \<open>Lines 9-26: the form values and \<^verbatim>\<open>requestData\<close>. There is no checkbox.\<close>

definition requestData_v1 :: "page \<Rightarrow> (string \<times> jsval) list" where
  "requestData_v1 pg =
     [(''source'', VStr (source (form pg))),
      (''destination'', VStr (destination (form pg))),
      (''start_date'', VStr (startDate (form pg))),
      (''end_date'', VStr (endDate (form pg))),
      (''budget'', VNum (parseFloat (budget (form pg)))),
      (''num_travelers'', VNum (parseInt (numTravelers (form pg)))),
      (''interests'', VStrs (map trim (split_comma (interests (form pg)))))]"

text \<open>Lines 2-36.\<close>

definition travelForm_submit_begin_v1 :: "page \<Rightarrow> page" where
  "travelForm_submit_begin_v1 pg =
     (let pg1 = pg\<lparr>loading_display := ''block'', result_display := ''none''\<rparr>
      in fetch (post ''http://localhost:8000/plan-trip'' (requestData_v1 pg1)) pg1)"

text \<open>\<^verbatim>\<open>s.replace(/\n/g, '<br>')\<close>.\<close>

definition nl_to_br :: "string \<Rightarrow> string" where
  "nl_to_br s = concat (map (\<lambda>c. if c = CHR 0x0A then ''<br>'' else [c]) s)"

text \<open>Lines 38-53. Reading \<^verbatim>\<open>replace\<close> of an absent \<^verbatim>\<open>data.plan\<close> throws into the
  \<^verbatim>\<open>catch\<close>.\<close>

definition travelForm_submit_settle_v1 :: "fetch_result \<Rightarrow> page \<Rightarrow> page" where
  "travelForm_submit_settle_v1 r pg =
     (let failed = alert ''Error generating travel plan. Please try again.'' pg;
          pg' =
            (case r of
               Rejected m \<Rightarrow> failed
             | Responded ok (Unparseable m) \<Rightarrow> failed
             | Responded ok (Parsed d) \<Rightarrow>
                 if d_success d then
                   (case d_plan d of
                      None \<Rightarrow> failed
                    | Some plan \<Rightarrow>
                        pg\<lparr>planContent := nl_to_br plan, result_display := ''block''\<rparr>)
                 else failed)
      in pg'\<lparr>loading_display := ''none''\<rparr>)"

subsection \<open>The second version (\<^verbatim>\<open>script.js\<close> lines 54-170)\<close>

text \<open>Lines 79-88, the object handed to \<^verbatim>\<open>JSON.stringify\<close>.\<close>

definition trip_payload_v2 :: "page \<Rightarrow> bool \<Rightarrow> (string \<times> jsval) list" where
  "trip_payload_v2 pg flights =
     [(''source'', VStr (source (form pg))),
      (''destination'', VStr (destination (form pg))),
      (''start_date'', VStr (startDate (form pg))),
      (''end_date'', VStr (endDate (form pg))),
      (''budget'', VNum (parseFloat (budget (form pg)))),
      (''travelers'', VNum (parseInt (travelers (form pg)))),
      (''interests'', VStrs (map trim (split_comma (interests (form pg))))),
      (''include_flights'', VBool flights)]"

text \<open>Lines 57-89. Reading \<^verbatim>\<open>checked\<close> of a checkbox that is not there throws, outside
  the \<^verbatim>\<open>try\<close>.\<close>

definition travelForm_submit_begin_v2 :: "page \<Rightarrow> outcome" where
  "travelForm_submit_begin_v2 pg =
     (let pg1 = pg\<lparr>loadingSpinner_hidden := False, result_hidden := True\<rparr> in
      case includeFlights (form pg1) of
        None \<Rightarrow> Thrown pg1 ''Cannot read properties of null (reading 'checked')''
      | Some flights \<Rightarrow>
          Awaiting (fetch (post ''http://localhost:8000/generate-plan''
                             (trip_payload_v2 pg1 flights)) pg1))"

text \<open>Lines 94-109, the branch of \<^verbatim>\<open>response.ok\<close>.\<close>

definition show_plan_v2 :: "data \<Rightarrow> page \<Rightarrow> page \<times> string option" where
  "show_plan_v2 d pg =
     (case marked_parse pg (d_plan d) of
        Inl e \<Rightarrow> (pg, Some e)
      | Inr html \<Rightarrow>
          (let pg1 = pg\<lparr>planContent := html,
                        chatMessages := [],
                        globals := (globals pg)\<lparr>currentTravelPlan := d_plan d\<rparr>,
                        chatBox_hidden := False\<rparr>
           in if truthy (d_flight_details d) then
                (case marked_parse pg1 (d_flight_details d) of
                   Inl e \<Rightarrow> (pg1, Some e)
                 | Inr fhtml \<Rightarrow>
                     (pg1\<lparr>flightContent := fhtml, flightDetails_hidden := False,
                          result_hidden := False\<rparr>, None))
              else (pg1\<lparr>flightDetails_hidden := True, result_hidden := False\<rparr>, None)))"

text \<open>Lines 91-118.\<close>

definition travelForm_submit_settle_v2 :: "fetch_result \<Rightarrow> page \<Rightarrow> page" where
  "travelForm_submit_settle_v2 r pg =
     (let pg' =
        (case r of
           Rejected m \<Rightarrow> alert (''Error connecting to the server: '' @ m) pg
         | Responded ok (Unparseable m) \<Rightarrow> alert (''Error connecting to the server: '' @ m) pg
         | Responded ok (Parsed d) \<Rightarrow>
             if ok then
               (case show_plan_v2 d pg of
                  (pg1, None) \<Rightarrow> pg1
                | (pg1, Some e) \<Rightarrow> alert (''Error connecting to the server: '' @ e) pg1)
             else alert (''Error: '' @ to_text (d_detail d)) pg)
      in pg'\<lparr>loadingSpinner_hidden := True\<rparr>)"

text \<open>Lines 138-141, the object handed to \<^verbatim>\<open>JSON.stringify\<close>.\<close>

definition chat_payload_v2 :: "snapshot \<Rightarrow> string \<Rightarrow> (string \<times> jsval) list" where
  "chat_payload_v2 g message =
     [(''question'', VStr message),
      (''travel_plan'', of_opt (currentTravelPlan g))]"

text \<open>Lines 122-142. Lines 144-153 and \<^verbatim>\<open>addMessageToChat\<close> are those of \<^verbatim>\<open>part_000\<close>, so
  \<open>sendMessage_settle\<close> and \<open>addMessageToChat\<close> serve both versions.\<close>

definition sendMessage_begin_v2 :: "page \<Rightarrow> outcome" where
  "sendMessage_begin_v2 pg =
     (let message = trim (chatInput pg) in
      if message = [] then Returned pg
      else
        (let pg1 = pg\<lparr>chatInput := []\<rparr> in
         case addMessageToChat (Some message) True pg1 of
           Inl e \<Rightarrow> Thrown pg1 e
         | Inr pg2 \<Rightarrow>
             Awaiting (fetch (post ''http://localhost:8000/chat''
                                (chat_payload_v2 (globals pg2) message)) pg2)))"

text \<open>Submissions whose response arrives before any other event.\<close>

definition travelForm_submit_v1 :: "fetch_result \<Rightarrow> page \<Rightarrow> page" where
  "travelForm_submit_v1 r pg = travelForm_submit_settle_v1 r (travelForm_submit_begin_v1 pg)"

definition travelForm_submit_v2 :: "fetch_result \<Rightarrow> page \<Rightarrow> outcome" where
  "travelForm_submit_v2 r pg =
     (case travelForm_submit_begin_v2 pg of
        Awaiting pg1 \<Rightarrow> Returned (travelForm_submit_settle_v2 r pg1)
      | Returned pg1 \<Rightarrow> Returned pg1
      | Thrown pg1 e \<Rightarrow> Thrown pg1 e)"

definition sendMessage_v2 :: "fetch_result \<Rightarrow> page \<Rightarrow> outcome" where
  "sendMessage_v2 r pg =
     (case sendMessage_begin_v2 pg of
        Awaiting pg1 \<Rightarrow> sendMessage_settle r pg1
      | Returned pg1 \<Rightarrow> Returned pg1
      | Thrown pg1 e \<Rightarrow> Thrown pg1 e)"

subsection \<open>An example page\<close>

text \<open>
  The markup is not part of the sources; this page has the library loaded (a stand-in for
  its \<^verbatim>\<open>parse\<close> that wraps the text in a paragraph), the globals at their initial
  values, result and chat hidden, and the form filled in.
\<close>

definition example_form :: form where
  "example_form = \<lparr>source = ''NYC'', destination = ''Paris'', startDate = ''2024-06-01'',
     endDate = ''2024-06-10'', budget = ''2000'', numTravelers = ''2'', travelers = ''2'',
     interests = ''art, food'', includeFlights = Some True\<rparr>"

definition example_marked :: "string \<Rightarrow> string" where
  "example_marked s = ''<p>'' @ s @ ''</p>''"

definition example_page :: page where
  "example_page = \<lparr>form = example_form, globals = initial_globals,
     marked = Some example_marked, loading_display = [], loadingSpinner_hidden = True,
     result_display = [], result_hidden = True, planContent = [], chatMessages = [],
     chatBox_hidden = True, flightDetails_hidden = True, flightContent = [],
     chatInput = [], alerts = [], requests = []\<rparr>"

text \<open>The same page when the library has not been loaded.\<close>

definition example_page_without_marked :: page where
  "example_page_without_marked = example_page\<lparr>marked := None\<rparr>"

definition example_data :: data where
  "example_data = \<lparr>d_success = False, d_plan = None, d_flight_details = None,
     d_error = None, d_detail = None, d_response = None\<rparr>"

text \<open>That page after a plan without flight details has been displayed on it and the
  user has typed a question.\<close>

definition example_chat_page_without_marked :: page where
  "example_chat_page_without_marked =
     (travelForm_submit
        (Responded True (Parsed (example_data\<lparr>d_success := True, d_plan := Some ''Day 1''\<rparr>)))
        example_page_without_marked)\<lparr>chatInput := ''hi''\<rparr>"

section \<open>Properties\<close>

subsection \<open>Notions used in the statements\<close>

text \<open>A string that is empty or consists of white space only.\<close>

definition blank :: "string \<Rightarrow> bool" where
  "blank s \<longleftrightarrow> (\<forall>c\<in>set s. is_ws c)"

text \<open>The two kinds of chat turn, by the class names \<^verbatim>\<open>addMessageToChat\<close> gives them.\<close>

definition user_turn :: "string \<Rightarrow> message_div" where
  "user_turn html = \<lparr>className = ''message user-message user'', innerHTML = html\<rparr>"

definition assistant_turn :: "string \<Rightarrow> message_div" where
  "assistant_turn html = \<lparr>className = ''message ai-message ai'', innerHTML = html\<rparr>"

text \<open>
  The text of the assistant turn that answers a chat request: the \<^verbatim>\<open>response\<close> field of
  an OK response, one fixed text for a response that is not OK, and another fixed text
  when the request failed, the body is not JSON or the \<^verbatim>\<open>response\<close> field is absent.
\<close>

definition reply_text :: "fetch_result \<Rightarrow> string" where
  "reply_text r =
     (case r of
        Rejected m \<Rightarrow> ''Error connecting to the server. Please try again.''
      | Responded ok (Unparseable m) \<Rightarrow> ''Error connecting to the server. Please try again.''
      | Responded ok (Parsed d) \<Rightarrow>
          if ok then
            (case d_response d of
               Some s \<Rightarrow> s
             | None \<Rightarrow> ''Error connecting to the server. Please try again.'')
          else ''Sorry, I couldn't process your question. Please try again.'')"

text \<open>
  How a trip request can fail: in transport (the request is rejected, or the body of the
  response is not JSON), or in the business logic (the response parses and its
  \<^verbatim>\<open>success\<close> field is false or absent).
\<close>

definition transport_failure :: "fetch_result \<Rightarrow> bool" where
  "transport_failure r =
     (case r of
        Rejected m \<Rightarrow> True
      | Responded ok (Unparseable m) \<Rightarrow> True
      | Responded ok (Parsed d) \<Rightarrow> False)"

definition business_failure :: "fetch_result \<Rightarrow> bool" where
  "business_failure r =
     (case r of
        Rejected m \<Rightarrow> False
      | Responded ok (Unparseable m) \<Rightarrow> False
      | Responded ok (Parsed d) \<Rightarrow> \<not> d_success d)"

text \<open>
  A string that does not begin with a numeral: after leading white space and one optional
  sign there is neither \<^verbatim>\<open>Infinity\<close>, nor a digit, nor a dot followed by a digit. The
  empty string and \<^verbatim>\<open>abc\<close> are such strings; \<^verbatim>\<open>12abc\<close> is not, it begins with the
  numeral 12.
\<close>

definition starts_numeral :: "string \<Rightarrow> bool" where
  "starts_numeral u =
     (case u of
        [] \<Rightarrow> False
      | c # r \<Rightarrow>
          is_digit c \<or> (c = CHR ''.'' \<and> (case r of [] \<Rightarrow> False | c' # r' \<Rightarrow> is_digit c')))"

definition non_numeric :: "string \<Rightarrow> bool" where
  "non_numeric s =
     (let u = snd (strip_sign (dropWhile is_ws s))
      in take 8 u \<noteq> ''Infinity'' \<and> \<not> starts_numeral u)"

text \<open>The value of a property of a JSON object.\<close>

definition json_field :: "json \<Rightarrow> string \<Rightarrow> json option" where
  "json_field j k = (case j of JObj kvs \<Rightarrow> map_of kvs k | _ \<Rightarrow> None)"

text \<open>A non-empty string of decimal digits.\<close>

definition digits :: "string \<Rightarrow> bool" where
  "digits ds \<longleftrightarrow> ds \<noteq> [] \<and> (\<forall>c\<in>set ds. is_digit c)"

text \<open>
  What \<^verbatim>\<open>JSON.stringify\<close> writes for a Number (\<^verbatim>\<open>null\<close> unless it is finite), and the
  property it writes for a value that may be \<^verbatim>\<open>undefined\<close> (none when it is).
\<close>

definition num_json :: "jsnum \<Rightarrow> json" where
  "num_json n = (case n of Num r \<Rightarrow> JNum r | _ \<Rightarrow> JNull)"

definition opt_field :: "string \<Rightarrow> string option \<Rightarrow> (string \<times> json) list" where
  "opt_field k v = (case v of None \<Rightarrow> [] | Some s \<Rightarrow> [(k, JStr s)])"

subsection \<open>Strings\<close>

lemma dropWhile_all: "(\<forall>x\<in>set (dropWhile P xs). P x) \<longleftrightarrow> (\<forall>x\<in>set xs. P x)"
  by (induction xs) auto

lemma trim_eq_Nil: "trim s = [] \<longleftrightarrow> blank s"
  by (simp add: trim_def blank_def dropWhile_eq_Nil_conv dropWhile_all)

lemma split_comma_not_Nil: "split_comma s \<noteq> []"
  by (induction s) (auto split: list.splits)

lemma join_split_comma: "join_comma (split_comma s) = s"
proof (induction s)
  case Nil
  then show ?case by simp
next
  case (Cons c s)
  obtain t ts where ts: "split_comma s = t # ts"
    using split_comma_not_Nil [of s] by (cases "split_comma s") auto
  with Cons show ?case
    by (cases ts) auto
qed

lemma split_comma_no_comma: "t \<in> set (split_comma s) \<Longrightarrow> CHR '','' \<notin> set t"
proof (induction s arbitrary: t)
  case Nil
  then show ?case by simp
next
  case (Cons c s)
  obtain u us where us: "split_comma s = u # us"
    using split_comma_not_Nil [of s] by (cases "split_comma s") auto
  with Cons show ?case
    by (auto split: if_splits)
qed

lemma length_split_comma: "length (split_comma s) = Suc (count_list s (CHR '',''))"
proof (induction s)
  case Nil
  then show ?case by simp
next
  case (Cons c s)
  obtain u us where us: "split_comma s = u # us"
    using split_comma_not_Nil [of s] by (cases "split_comma s") auto
  with Cons show ?case
    by auto
qed

lemma split_comma_trailing: "split_comma (s @ '','') = split_comma s @ [[]]"
proof (induction s)
  case Nil
  then show ?case by simp
next
  case (Cons c s)
  obtain u us where us: "split_comma s = u # us"
    using split_comma_not_Nil [of s] by (cases "split_comma s") auto
  with Cons show ?case
    by auto
qed

lemma trim_Nil: "trim [] = []"
  by (simp add: trim_def)

lemma hd_dropWhile_not: "dropWhile P xs \<noteq> [] \<Longrightarrow> \<not> P (hd (dropWhile P xs))"
  by (induction xs) auto

lemma last_dropWhile: "dropWhile P xs \<noteq> [] \<Longrightarrow> last (dropWhile P xs) = last xs"
  by (induction xs) (auto split: if_splits)

lemma trim_ends:
  assumes "trim t \<noteq> []"
  shows "\<not> is_ws (hd (trim t))" and "\<not> is_ws (last (trim t))"
proof -
  let ?u = "dropWhile is_ws t"
  let ?v = "dropWhile is_ws (rev ?u)"
  from assms have v: "?v \<noteq> []"
    by (simp add: trim_def)
  then have u: "?u \<noteq> []"
    by (cases "dropWhile is_ws t = []") simp_all
  have "hd (trim t) = last ?v"
    using v by (simp add: trim_def hd_rev)
  also have "\<dots> = last (rev ?u)"
    using v by (rule last_dropWhile)
  also have "\<dots> = hd ?u"
    using u by (simp add: last_rev)
  finally show "\<not> is_ws (hd (trim t))"
    using hd_dropWhile_not [OF u] by simp
  have "last (trim t) = hd ?v"
    using v by (simp add: trim_def last_rev)
  then show "\<not> is_ws (last (trim t))"
    using hd_dropWhile_not [OF v] by simp
qed

lemma trim_decomposition:
  "t = takeWhile is_ws t @ trim t @ rev (takeWhile is_ws (rev (dropWhile is_ws t)))"
proof -
  let ?u = "dropWhile is_ws t"
  have "rev (takeWhile is_ws (rev ?u) @ dropWhile is_ws (rev ?u)) = ?u"
    by (simp only: takeWhile_dropWhile_id rev_rev_ident)
  then have "rev (dropWhile is_ws (rev ?u)) @ rev (takeWhile is_ws (rev ?u)) = ?u"
    by (simp only: rev_append)
  then have "?u = trim t @ rev (takeWhile is_ws (rev ?u))"
    by (simp only: trim_def)
  moreover have "t = takeWhile is_ws t @ ?u"
    by simp
  ultimately show ?thesis
    by simp
qed

lemma blank_takeWhile: "blank (takeWhile is_ws t)"
  by (auto simp: blank_def dest: set_takeWhileD)

lemma blank_rev_takeWhile: "blank (rev (takeWhile is_ws t))"
  by (auto simp: blank_def dest: set_takeWhileD)

subsection \<open>Numbers\<close>

lemma number_value_not_NaN: "number_value x \<noteq> NaN"
  by (simp add: number_value_def Let_def)

lemma bit_length_pos: "0 < n \<Longrightarrow> bit_length n = Suc (bit_length (n div 2))"
  by (simp add: bit_length.simps [of n])

lemma bit_length_nonpos: "n \<le> 0 \<Longrightarrow> bit_length n = 0"
  by (simp add: bit_length.simps [of n])

lemma bit_length_one: "bit_length 1 = 1"
  by (simp add: bit_length_pos bit_length_nonpos)

lemma bit_length_bounds:
  "0 < n \<Longrightarrow> 2 ^ (bit_length n - 1) \<le> n \<and> n < 2 ^ bit_length n"
proof (induction n rule: bit_length.induct)
  case (1 n)
  show ?case
  proof (cases "n = 1")
    case True
    then show ?thesis
      by (simp add: bit_length_one)
  next
    case False
    with "1.prems" have h: "0 < n div 2"
      by simp
    with "1.IH" "1.prems" have ih: "2 ^ (bit_length (n div 2) - 1) \<le> n div 2"
      "n div 2 < 2 ^ bit_length (n div 2)"
      by simp_all
    obtain k where k: "bit_length (n div 2) = Suc k"
      using bit_length_pos [OF h] by simp
    have b: "bit_length n = Suc (Suc k)"
      using bit_length_pos [OF "1.prems"] k by simp
    from ih k have "2 ^ k \<le> n div 2" "n div 2 < 2 * 2 ^ k"
      by simp_all
    then have "2 * 2 ^ k \<le> n" "n < 2 * (2 * 2 ^ k)"
      by linarith+
    then show ?thesis
      by (simp add: b)
  qed
qed

lemma quotient_of_nat: "quotient_of (of_nat n) = (int n, 1)"
  using quotient_of_int [of "int n"] by (simp add: Rat.of_int_def)

lemma pow2_nonneg: "0 \<le> k \<Longrightarrow> pow2 k = 2 ^ nat k"
  by (simp add: pow2_def)

lemma pow2_neg: "k \<le> 0 \<Longrightarrow> pow2 k = 1 / 2 ^ nat (- k)"
  by (simp add: pow2_def)

lemma floor_log2_nat:
  assumes "0 < n"
  shows "floor_log2 (of_nat n) = int (bit_length (int n)) - 1"
proof -
  from assms have p: "0 < int n" by simp
  obtain k where k: "bit_length (int n) = Suc k"
    using bit_length_pos [OF p] by simp
  from bit_length_bounds [OF p] k have "2 ^ k \<le> int n"
    by simp
  then have "(2::rat) ^ k \<le> of_int (int n)"
    by (metis of_int_le_iff of_int_numeral of_int_power)
  then have "pow2 (int k) \<le> of_nat n"
    by (simp add: pow2_nonneg)
  then show ?thesis
    by (simp add: floor_log2_def quotient_of_nat bit_length_one k)
qed

lemma round_half_even_int: "round_half_even (of_int z) = z"
  by (simp add: round_half_even_def)

lemma number_value_nat:
  assumes "n < 2 ^ 53"
  shows "number_value (of_nat n) = Num (of_nat n)"
proof (cases "n = 0")
  case True
  then show ?thesis
    by (simp add: number_value_def)
next
  case False
  then have p: "0 < int n" and pn: "0 < n" by simp_all
  obtain k where k: "bit_length (int n) = Suc k"
    using bit_length_pos [OF p] by simp
  from bit_length_bounds [OF p] k have "2 ^ k \<le> int n"
    by simp
  then have "(2::nat) ^ k \<le> n"
    by (metis of_nat_le_iff of_nat_numeral of_nat_power)
  with assms have "(2::nat) ^ k < 2 ^ 53"
    by simp
  then have "k < 53"
    by (rule power_less_imp_less_exp [rotated]) simp
  then have k52: "k \<le> 52"
    by simp
  have fl: "floor_log2 (of_nat n) = int k"
    using floor_log2_nat [OF pn] k by simp
  define j where "j = 52 - k"
  have e: "max (floor_log2 (of_nat n) - 52) (- 1074) = - int j"
    using k52 by (simp add: fl j_def)
  have pe: "pow2 (- int j) = 1 / 2 ^ j"
    by (simp add: pow2_neg)
  have q: "of_nat n / pow2 (- int j) = of_int (int n * 2 ^ j)"
    by (simp add: pe)
  have r: "round_half_even (of_nat n / pow2 (- int j)) = int n * 2 ^ j"
    unfolding q by (rule round_half_even_int)
  have v: "of_int (int n * 2 ^ j) * pow2 (- int j) = (of_nat n :: rat)"
    by (simp add: pe)
  have "(of_nat n :: rat) < 2 ^ 53"
    using assms by (metis of_nat_less_iff of_nat_numeral of_nat_power)
  also have "(2::rat) ^ 53 \<le> 2 ^ 1024"
    by (rule power_increasing) simp_all
  finally have small: "\<not> pow2 1024 \<le> (of_nat n :: rat)"
    by (simp add: pow2_nonneg)
  have w: "of_int (round_half_even
             (of_nat n / pow2 (max (floor_log2 (of_nat n) - 52) (- 1074))))
           * pow2 (max (floor_log2 (of_nat n) - 52) (- 1074)) = (of_nat n :: rat)"
    by (simp only: e r v)
  show ?thesis
    using False small
    by (simp add: number_value_def Let_def w)
qed

lemma pow2_powi: "pow2 k = 2 powi k"
  by (simp add: pow2_def power_int_def inverse_eq_divide power_one_over)

lemma pow2_of_nat: "pow2 (int m) = 2 ^ m"
  by (simp add: pow2_def)

lemma pow2_pos: "0 < pow2 k"
  by (simp add: pow2_powi)

lemma pow2_mono: "i \<le> j \<Longrightarrow> pow2 i \<le> pow2 j"
  by (simp add: pow2_powi power_int_increasing)

lemma pow2_add: "pow2 (i + j) = pow2 i * pow2 j"
  by (simp add: pow2_powi power_int_add)

lemma bit_length_rat:
  assumes "0 < n"
  shows "pow2 (int (bit_length n) - 1) \<le> of_int n" and "of_int n < pow2 (int (bit_length n))"
proof -
  obtain k where k: "bit_length n = Suc k"
    using bit_length_pos [OF assms] by simp
  from bit_length_bounds [OF assms] k have b: "2 ^ k \<le> n" "n < 2 ^ Suc k"
    by simp_all
  from b(1) have "(2::rat) ^ k \<le> of_int n"
    by (metis of_int_le_iff of_int_numeral of_int_power)
  then show "pow2 (int (bit_length n) - 1) \<le> of_int n"
    by (simp add: k pow2_nonneg)
  from b(2) have "of_int n < (2::rat) ^ Suc k"
    by (metis of_int_less_iff of_int_numeral of_int_power)
  then show "of_int n < pow2 (int (bit_length n))"
    by (simp only: k pow2_of_nat)
qed

lemma floor_log2_bounds:
  assumes "0 < a"
  shows "pow2 (floor_log2 a) \<le> a" and "a < pow2 (floor_log2 a + 1)"
proof -
  obtain p q where pq: "quotient_of a = (p, q)"
    by (cases "quotient_of a")
  have q: "0 < q"
    using pq by (rule quotient_of_denom_pos)
  have a: "a = of_int p / of_int q"
    using pq by (rule quotient_of_div)
  have p: "0 < p"
    using assms q unfolding a by (simp add: zero_less_divide_iff)
  let ?i = "int (bit_length p)" and ?j = "int (bit_length q)"
  note bp = bit_length_rat [OF p] and bq = bit_length_rat [OF q]
  have qr: "(0::rat) < of_int q"
    using q by simp
  have lo: "pow2 (?i - ?j - 1) \<le> a"
  proof -
    have "pow2 (?i - ?j - 1) * of_int q \<le> pow2 (?i - ?j - 1) * pow2 ?j"
      using bq(2) pow2_pos [of "?i - ?j - 1"] by simp
    also have "\<dots> = pow2 (?i - 1)"
      by (simp add: pow2_add [symmetric])
    also have "\<dots> \<le> of_int p"
      by (rule bp(1))
    finally show ?thesis
      unfolding a using qr by (simp add: pos_le_divide_eq)
  qed
  have hi: "a < pow2 (?i - ?j + 1)"
  proof -
    have "of_int p < pow2 ?i"
      by (rule bp(2))
    also have "\<dots> = pow2 (?i - ?j + 1) * pow2 (?j - 1)"
      by (simp add: pow2_add [symmetric])
    also have "\<dots> \<le> pow2 (?i - ?j + 1) * of_int q"
      using bq(1) pow2_pos [of "?i - ?j + 1"] by simp
    finally show ?thesis
      unfolding a using qr by (simp add: pos_divide_less_eq)
  qed
  show "pow2 (floor_log2 a) \<le> a"
    using lo by (simp add: floor_log2_def pq Let_def)
  show "a < pow2 (floor_log2 a + 1)"
    using hi by (auto simp: floor_log2_def pq Let_def not_le)
qed

lemma round_half_even_ge_floor: "\<lfloor>r\<rfloor> \<le> round_half_even r"
  by (simp add: round_half_even_def Let_def)

lemma number_value_overflow:
  assumes "pow2 1024 \<le> x"
  shows "number_value x = PosInfinity"
proof -
  have x: "0 < x"
    using assms pow2_pos [of 1024] by linarith
  have f: "1024 \<le> floor_log2 x"
  proof (rule ccontr)
    assume "\<not> 1024 \<le> floor_log2 x"
    then have "floor_log2 x + 1 \<le> 1024" by simp
    then have "pow2 (floor_log2 x + 1) \<le> pow2 1024" by (rule pow2_mono)
    with floor_log2_bounds(2) [OF x] assms show False by linarith
  qed
  define e where "e = floor_log2 x - 52"
  have e: "max (floor_log2 x - 52) (- 1074) = e"
    using f by (simp add: e_def)
  have "pow2 52 * pow2 e = pow2 (floor_log2 x)"
    by (simp add: pow2_add [symmetric] e_def)
  also have "\<dots> \<le> x"
    by (rule floor_log2_bounds(1) [OF x])
  finally have "pow2 52 \<le> x / pow2 e"
    using pow2_pos [of e] by (simp add: pos_le_divide_eq)
  then have "of_int (2 ^ 52) \<le> x / pow2 e"
    by (simp add: pow2_nonneg)
  then have "2 ^ 52 \<le> \<lfloor>x / pow2 e\<rfloor>"
    by (simp only: le_floor_iff)
  with round_half_even_ge_floor [of "x / pow2 e"]
  have "2 ^ 52 \<le> round_half_even (x / pow2 e)"
    by linarith
  then have "(of_int (2 ^ 52) :: rat) \<le> of_int (round_half_even (x / pow2 e))"
    by (simp only: of_int_le_iff)
  then have "pow2 52 \<le> of_int (round_half_even (x / pow2 e))"
    by (simp add: pow2_nonneg)
  then have "pow2 52 * pow2 e \<le> of_int (round_half_even (x / pow2 e)) * pow2 e"
    using pow2_pos [of e] by simp
  moreover have "pow2 1024 \<le> pow2 52 * pow2 e"
    using f by (simp add: pow2_add [symmetric] e_def pow2_mono)
  ultimately have v: "pow2 1024 \<le> of_int (round_half_even (x / pow2 e)) * pow2 e"
    by linarith
  show ?thesis
    using x v by (simp add: number_value_def Let_def e)
qed

lemma is_digit_not_ws: "is_digit c \<Longrightarrow> \<not> is_ws c"
  by (auto simp: is_digit_def is_ws_def)

lemma digits_prefix:
  assumes "digits ds"
  shows "dropWhile is_ws (ds @ r) = ds @ r"
    and "strip_sign (ds @ r) = (False, ds @ r)"
    and "take 8 (ds @ r) \<noteq> ''Infinity''"
proof -
  from assms obtain c cs where ds: "ds = c # cs" and c: "is_digit c"
    by (cases ds) (auto simp: digits_def)
  show "dropWhile is_ws (ds @ r) = ds @ r"
    using ds c by (simp add: is_digit_not_ws)
  show "strip_sign (ds @ r) = (False, ds @ r)"
    using ds c by (auto simp: is_digit_def)
  show "take 8 (ds @ r) \<noteq> ''Infinity''"
    using ds c by (auto simp: is_digit_def)
qed

lemma digits_takeWhile:
  assumes "\<forall>c\<in>set ds. is_digit c" and "r = [] \<or> \<not> is_digit (hd r)"
  shows "takeWhile is_digit (ds @ r) = ds" and "dropWhile is_digit (ds @ r) = r"
proof -
  from assms(2) have r: "takeWhile is_digit r = []" "dropWhile is_digit r = r"
    by (cases r; auto)+
  from assms(1) show "takeWhile is_digit (ds @ r) = ds"
    by (induction ds) (simp_all add: r)
  from assms(1) show "dropWhile is_digit (ds @ r) = r"
    by (induction ds) (simp_all add: r)
qed

lemma scale10_zero: "scale10 m 0 = of_nat m"
  by (simp add: scale10_def)

lemma scale10_neg: "scale10 m (- int n) = of_nat m / 10 ^ n"
  by (simp add: scale10_def)

lemma parseFloat_digits:
  assumes "digits ds"
  shows "parseFloat ds = number_value (of_nat (decimal ds))"
proof -
  have a: "\<forall>c\<in>set ds. is_digit c" and n: "ds \<noteq> []"
    using assms by (simp_all add: digits_def)
  have t: "takeWhile is_digit ds = ds" "dropWhile is_digit ds = []"
    using digits_takeWhile [OF a, of "[]"] by simp_all
  have "unsigned_decimal ds = Some (of_nat (decimal ds))"
    using n by (simp add: unsigned_decimal_def t scale10_zero)
  then show ?thesis
    using digits_prefix [OF assms, of "[]"]
    by (simp add: parseFloat_def signed_def)
qed

lemma parseFloat_fraction:
  assumes "digits ip" and "\<forall>c\<in>set fp. is_digit c"
  shows "parseFloat (ip @ ''.'' @ fp)
           = number_value (of_nat (decimal (ip @ fp)) / 10 ^ length fp)"
proof -
  have a: "\<forall>c\<in>set ip. is_digit c" and n: "ip \<noteq> []"
    using assms(1) by (simp_all add: digits_def)
  have dot: "\<not> is_digit (CHR ''.'')"
    by (simp add: is_digit_def)
  have t: "takeWhile is_digit (ip @ ''.'' @ fp) = ip"
          "dropWhile is_digit (ip @ ''.'' @ fp) = ''.'' @ fp"
    using digits_takeWhile [OF a, of "''.'' @ fp"] dot by simp_all
  have f: "takeWhile is_digit fp = fp" "dropWhile is_digit fp = []"
    using digits_takeWhile [OF assms(2), of "[]"] by simp_all
  have "unsigned_decimal (ip @ ''.'' @ fp) = Some (of_nat (decimal (ip @ fp)) / 10 ^ length fp)"
    using n t by (simp add: unsigned_decimal_def f exponent_part_def scale10_neg)
  then show ?thesis
    using digits_prefix [OF assms(1), of "''.'' @ fp"]
    by (simp add: parseFloat_def signed_def)
qed

lemma parseInt_digits:
  assumes "digits ds"
  shows "parseInt ds = number_value (of_nat (decimal ds))"
proof -
  have a: "\<forall>c\<in>set ds. is_digit c" and n: "ds \<noteq> []"
    using assms by (simp_all add: digits_def)
  have t: "takeWhile is_digit ds = ds"
    using digits_takeWhile [OF a, of "[]"] by simp
  have x: "take 2 ds \<noteq> ''0x''" "take 2 ds \<noteq> ''0X''"
  proof -
    have "\<not> is_digit (CHR ''x'')" "\<not> is_digit (CHR ''X'')"
      by (simp_all add: is_digit_def)
    with a show "take 2 ds \<noteq> ''0x''" "take 2 ds \<noteq> ''0X''"
      by (cases ds; cases "tl ds"; auto)+
  qed
  show ?thesis
    using digits_prefix [OF assms, of "[]"] n x
    by (simp add: parseInt_def signed_def t)
qed

lemma unsigned_decimal_None_iff: "unsigned_decimal u = None \<longleftrightarrow> \<not> starts_numeral u"
proof (cases u)
  case Nil
  then show ?thesis
    by (simp add: unsigned_decimal_def starts_numeral_def)
next
  case (Cons c r)
  show ?thesis
  proof (cases "is_digit c")
    case True
    then show ?thesis
      using Cons
      by (simp add: unsigned_decimal_def starts_numeral_def Let_def split: list.splits)
  next
    case False
    then show ?thesis
      using Cons
      by (cases r) (simp_all add: unsigned_decimal_def starts_numeral_def Let_def)
  qed
qed

lemma parseFloat_NaN_iff: "parseFloat s = NaN \<longleftrightarrow> non_numeric s"
  using unsigned_decimal_None_iff [of "snd (strip_sign (dropWhile is_ws s))"]
  by (auto simp: parseFloat_def non_numeric_def Let_def number_value_not_NaN
      split: option.splits)

lemma example_values:
  "parseFloat ''2000'' = Num 2000"
  "parseInt ''2'' = Num 2"
  "map trim (split_comma ''art, food'') = [''art'', ''food'']"
proof -
  have d: "digits ''2000''" "digits ''2''"
    by (simp_all add: digits_def is_digit_def)
  have v: "decimal ''2000'' = 2000" "decimal ''2'' = 2"
    by (simp_all add: decimal_def digit_val_def)
  have "number_value (of_nat 2000) = Num (of_nat 2000)"
    by (rule number_value_nat) simp
  then show "parseFloat ''2000'' = Num 2000"
    by (simp add: parseFloat_digits [OF d(1)] v)
  have "number_value (of_nat 2) = Num (of_nat 2)"
    by (rule number_value_nat) simp
  then show "parseInt ''2'' = Num 2"
    by (simp add: parseInt_digits [OF d(2)] v)
  show "map trim (split_comma ''art, food'') = [''art'', ''food'']"
    by (simp add: trim_def is_ws_def)
qed

text \<open>
  Beyond the 53 bits of the significand a numeral is rounded, and beyond the range of
  the format it becomes an infinity, which \<^verbatim>\<open>JSON.stringify\<close> writes as \<^verbatim>\<open>null\<close>.
\<close>

lemma parseInt_rounds: "parseInt ''9007199254740993'' = Num 9007199254740992"
proof -
  have d: "digits ''9007199254740993''"
    by (simp add: digits_def is_digit_def)
  have v: "decimal ''9007199254740993'' = 9007199254740993"
    by (simp add: decimal_def digit_val_def)
  have "number_value 9007199254740993 = Num 9007199254740992"
    by code_simp
  then show ?thesis
    by (simp add: parseInt_digits [OF d] v)
qed

lemma parseFloat_overflows: "parseFloat ''1e309'' = PosInfinity"
proof -
  have u: "unsigned_decimal ''1e309'' = Some (10 ^ 309)"
    by (simp add: unsigned_decimal_def exponent_part_def is_digit_def decimal_def
        digit_val_def scale10_def)
  have "pow2 1024 \<le> 10 ^ 309"
    by (simp add: pow2_nonneg)
  then have "number_value (10 ^ 309) = PosInfinity"
    by (rule number_value_overflow)
  then show ?thesis
    by (simp add: parseFloat_def u is_ws_def signed_def)
qed

subsection \<open>The chat session\<close>

lemma addMessageToChat_loaded:
  "marked pg = Some mp \<Longrightarrow>
   addMessageToChat (Some m) isUser pg =
     Inr (pg\<lparr>chatMessages := chatMessages pg @
            [if isUser then user_turn (mp m) else assistant_turn (mp m)]\<rparr>)"
  by (simp add: addMessageToChat_def marked_parse_def user_turn_def assistant_turn_def)

lemma addMessageToChat_undefined:
  "marked pg = Some mp \<Longrightarrow>
   addMessageToChat None isUser pg = Inl marked_undefined_message"
  by (simp add: addMessageToChat_def marked_parse_def)

lemma sendMessage_begin_loaded:
  assumes "marked pg = Some mp" "trim (chatInput pg) \<noteq> []"
  shows "sendMessage_begin pg =
     Awaiting (pg\<lparr>chatInput := [],
                  chatMessages := chatMessages pg @ [user_turn (mp (trim (chatInput pg)))],
                  requests := requests pg @
                    [post ''http://localhost:8000/chat''
                       (chat_payload (globals pg) (trim (chatInput pg)))]\<rparr>)"
  using assms by (simp add: sendMessage_begin_def Let_def addMessageToChat_loaded fetch_def)

lemma sendMessage_begin_v2_loaded:
  assumes "marked pg = Some mp" "trim (chatInput pg) \<noteq> []"
  shows "sendMessage_begin_v2 pg =
     Awaiting (pg\<lparr>chatInput := [],
                  chatMessages := chatMessages pg @ [user_turn (mp (trim (chatInput pg)))],
                  requests := requests pg @
                    [post ''http://localhost:8000/chat''
                       (chat_payload_v2 (globals pg) (trim (chatInput pg)))]\<rparr>)"
  using assms by (simp add: sendMessage_begin_v2_def Let_def addMessageToChat_loaded fetch_def)

lemma sendMessage_catch_loaded:
  "marked pg = Some mp \<Longrightarrow>
   sendMessage_catch pg =
     Returned (pg\<lparr>chatMessages := chatMessages pg @
       [assistant_turn (mp ''Error connecting to the server. Please try again.'')]\<rparr>)"
  by (simp add: sendMessage_catch_def addMessageToChat_loaded)

lemma sendMessage_settle_loaded:
  assumes "marked pg = Some mp"
  shows "sendMessage_settle r pg =
     Returned (pg\<lparr>chatMessages := chatMessages pg @ [assistant_turn (mp (reply_text r))]\<rparr>)"
proof (cases r)
  case (Rejected m)
  then show ?thesis
    using assms by (simp add: sendMessage_settle_def sendMessage_catch_loaded reply_text_def)
next
  case (Responded ok b)
  show ?thesis
  proof (cases b)
    case (Unparseable m)
    then show ?thesis
      using assms Responded
      by (simp add: sendMessage_settle_def sendMessage_catch_loaded reply_text_def)
  next
    case (Parsed d)
    show ?thesis
    proof (cases "d_response d")
      case None
      then show ?thesis
        using assms Responded Parsed
        by (simp add: sendMessage_settle_def sendMessage_catch_loaded reply_text_def
            addMessageToChat_loaded addMessageToChat_undefined)
    next
      case (Some s)
      then show ?thesis
        using assms Responded Parsed
        by (simp add: sendMessage_settle_def reply_text_def addMessageToChat_loaded)
    qed
  qed
qed

text \<open>
  Claim C6. A call of \<^verbatim>\<open>sendMessage\<close> whose input is empty or white space only is a
  no-op: it returns at once and leaves the whole page as it was, so no request is issued
  and the transcript is not touched. This holds for both versions of the function and
  for the Enter key.
\<close>

theorem sendMessage_blank_is_noop:
  assumes "blank (chatInput pg)"
  shows "sendMessage_begin pg = Returned pg
       \<and> sendMessage r pg = Returned pg
       \<and> requests (page_of (sendMessage r pg)) = requests pg
       \<and> chatMessages (page_of (sendMessage r pg)) = chatMessages pg
       \<and> sendMessage_begin_v2 pg = Returned pg
       \<and> sendMessage_v2 r pg = Returned pg
       \<and> chatInput_keypress ''Enter'' pg = Returned pg"
proof -
  from assms have t: "trim (chatInput pg) = []"
    by (simp add: trim_eq_Nil)
  have b: "sendMessage_begin pg = Returned pg"
    using t by (simp add: sendMessage_begin_def)
  have b2: "sendMessage_begin_v2 pg = Returned pg"
    using t by (simp add: sendMessage_begin_v2_def)
  show ?thesis
    using b b2 by (simp add: sendMessage_def sendMessage_v2_def chatInput_keypress_def)
qed

theorem sendMessage_blank_is_noop_witness:
  "blank (chatInput (example_page\<lparr>chatInput := ''   ''\<rparr>))
   \<and> sendMessage (Rejected ''Failed to fetch'') (example_page\<lparr>chatInput := ''   ''\<rparr>)
       = Returned (example_page\<lparr>chatInput := ''   ''\<rparr>)
   \<and> requests (page_of (sendMessage (Rejected ''Failed to fetch'')
        (example_page\<lparr>chatInput := ''   ''\<rparr>))) = []
   \<and> chatMessages (page_of (sendMessage (Rejected ''Failed to fetch'')
        (example_page\<lparr>chatInput := ''   ''\<rparr>))) = []"
proof -
  have h: "blank (chatInput (example_page\<lparr>chatInput := ''   ''\<rparr>))"
    by (simp add: blank_def is_ws_def)
  show ?thesis
    using h sendMessage_blank_is_noop [OF h, of "Rejected ''Failed to fetch''"]
    by (simp add: example_page_def)
qed

text \<open>
  On a page where the \<^verbatim>\<open>marked\<close> library is loaded, a call of \<^verbatim>\<open>sendMessage\<close> whose
  input is not blank appends the user turn in its first step, before the response is
  awaited; when the request settles, in whatever way, exactly one assistant turn is
  appended: the response text of an OK response, a fallback text otherwise. The call
  returns normally and the transcript has grown by exactly two turns. This holds for both
  versions of the function.
\<close>

lemma sendMessage_appends_two_turns:
  assumes "marked pg = Some mp" and "\<not> blank (chatInput pg)"
  shows "is_Awaiting (sendMessage_begin pg)
       \<and> chatMessages (page_of (sendMessage_begin pg))
           = chatMessages pg @ [user_turn (mp (trim (chatInput pg)))]
       \<and> chatMessages (page_of (sendMessage_settle r (page_of (sendMessage_begin pg))))
           = chatMessages (page_of (sendMessage_begin pg)) @ [assistant_turn (mp (reply_text r))]
       \<and> is_Returned (sendMessage r pg)
       \<and> chatMessages (page_of (sendMessage r pg))
           = chatMessages pg @ [user_turn (mp (trim (chatInput pg))),
                                assistant_turn (mp (reply_text r))]
       \<and> length (chatMessages (page_of (sendMessage r pg))) = length (chatMessages pg) + 2
       \<and> is_Awaiting (sendMessage_begin_v2 pg)
       \<and> chatMessages (page_of (sendMessage_begin_v2 pg))
           = chatMessages pg @ [user_turn (mp (trim (chatInput pg)))]
       \<and> is_Returned (sendMessage_v2 r pg)
       \<and> chatMessages (page_of (sendMessage_v2 r pg))
           = chatMessages pg @ [user_turn (mp (trim (chatInput pg))),
                                assistant_turn (mp (reply_text r))]"
proof -
  from assms(2) have t: "trim (chatInput pg) \<noteq> []"
    by (simp add: trim_eq_Nil)
  note b = sendMessage_begin_loaded [OF assms(1) t]
  note b2 = sendMessage_begin_v2_loaded [OF assms(1) t]
  have s: "sendMessage r pg = sendMessage_settle r (page_of (sendMessage_begin pg))"
    by (simp add: sendMessage_def b)
  have s2: "sendMessage_v2 r pg = sendMessage_settle r (page_of (sendMessage_begin_v2 pg))"
    by (simp add: sendMessage_v2_def b2)
  have m: "marked (page_of (sendMessage_begin pg)) = Some mp"
    by (simp add: b assms(1))
  have m2: "marked (page_of (sendMessage_begin_v2 pg)) = Some mp"
    by (simp add: b2 assms(1))
  show ?thesis
    unfolding s s2 sendMessage_settle_loaded [OF m] sendMessage_settle_loaded [OF m2]
    by (simp add: b b2)
qed

lemma sendMessage_appends_two_turns_example:
  "marked (example_page\<lparr>chatInput := '' hi ''\<rparr>) = Some example_marked
   \<and> \<not> blank (chatInput (example_page\<lparr>chatInput := '' hi ''\<rparr>))
   \<and> chatMessages (page_of (sendMessage_begin (example_page\<lparr>chatInput := '' hi ''\<rparr>)))
       = [user_turn ''<p>hi</p>'']
   \<and> chatMessages (page_of (sendMessage
         (Responded True (Parsed (example_data\<lparr>d_response := Some ''Bonjour''\<rparr>)))
         (example_page\<lparr>chatInput := '' hi ''\<rparr>)))
       = [user_turn ''<p>hi</p>'', assistant_turn ''<p>Bonjour</p>'']"
proof -
  have m: "marked (example_page\<lparr>chatInput := '' hi ''\<rparr>) = Some example_marked"
    by (simp add: example_page_def)
  have n: "\<not> blank (chatInput (example_page\<lparr>chatInput := '' hi ''\<rparr>))"
    by (simp add: blank_def is_ws_def)
  have t: "trim '' hi '' = ''hi''"
    by (simp add: trim_def is_ws_def)
  have c: "chatMessages example_page = []"
    by (simp add: example_page_def)
  show ?thesis
    using m n sendMessage_appends_two_turns [OF m n,
        of "Responded True (Parsed (example_data\<lparr>d_response := Some ''Bonjour''\<rparr>))"]
    by (simp add: t c reply_text_def example_marked_def)
qed




subsection \<open>The globals and the submit handler\<close>

lemma globals_addMessageToChat:
  "addMessageToChat m u pg = Inr pg' \<Longrightarrow> globals pg' = globals pg"
  by (auto simp: addMessageToChat_def split: sum.splits)

lemma globals_sendMessage_begin: "globals (page_of (sendMessage_begin pg)) = globals pg"
  by (auto simp: sendMessage_begin_def Let_def fetch_def dest: globals_addMessageToChat
      split: sum.splits)

lemma globals_sendMessage_begin_v2: "globals (page_of (sendMessage_begin_v2 pg)) = globals pg"
  by (auto simp: sendMessage_begin_v2_def Let_def fetch_def dest: globals_addMessageToChat
      split: sum.splits)

lemma globals_sendMessage_catch: "globals (page_of (sendMessage_catch pg)) = globals pg"
  by (auto simp: sendMessage_catch_def dest: globals_addMessageToChat split: sum.splits)

lemma globals_sendMessage_settle: "globals (page_of (sendMessage_settle r pg)) = globals pg"
  by (auto simp: sendMessage_settle_def globals_sendMessage_catch
      dest: globals_addMessageToChat
      split: sum.splits fetch_result.splits json_body.splits if_splits)

lemma globals_sendMessage: "globals (page_of (sendMessage r pg)) = globals pg"
proof (cases "sendMessage_begin pg")
  case (Returned pg1)
  with globals_sendMessage_begin [of pg] show ?thesis
    by (simp add: sendMessage_def)
next
  case (Awaiting pg1)
  with globals_sendMessage_begin [of pg] globals_sendMessage_settle [of r pg1] show ?thesis
    by (simp add: sendMessage_def)
next
  case (Thrown pg1 e)
  with globals_sendMessage_begin [of pg] show ?thesis
    by (simp add: sendMessage_def)
qed

lemma show_plan_loaded:
  assumes "marked pg = Some mp" "d_plan d = Some plan"
  shows "show_plan p d pg =
    (pg\<lparr>planContent := mp plan,
        chatMessages := [],
        globals := \<lparr>currentTravelPlan = Some plan,
                    currentBudget = p_budget p,
                    currentTravelers = p_numTravelers p,
                    currentInterests = p_interests p,
                    currentIncludeFlights = p_includeFlights p,
                    currentSource = p_source p,
                    currentDestination = p_destination p,
                    currentStartDate = p_startDate p\<rparr>,
        chatBox_hidden := False,
        flightContent := (if truthy (d_flight_details d)
                          then mp (to_text (d_flight_details d)) else flightContent pg),
        flightDetails_hidden := (\<not> truthy (d_flight_details d)),
        result_display := ''block'',
        result_hidden := False\<rparr>, None)"
  using assms
  by (cases "d_flight_details d")
     (simp_all add: show_plan_def marked_parse_def Let_def truthy_def to_text_def)

lemma show_plan_v2_loaded:
  assumes "marked pg = Some mp" "d_plan d = Some plan"
  shows "show_plan_v2 d pg =
    (pg\<lparr>planContent := mp plan,
        chatMessages := [],
        globals := (globals pg)\<lparr>currentTravelPlan := Some plan\<rparr>,
        chatBox_hidden := False,
        flightContent := (if truthy (d_flight_details d)
                          then mp (to_text (d_flight_details d)) else flightContent pg),
        flightDetails_hidden := (\<not> truthy (d_flight_details d)),
        result_hidden := False\<rparr>, None)"
  using assms
  by (cases "d_flight_details d")
     (simp_all add: show_plan_v2_def marked_parse_def Let_def truthy_def to_text_def)

lemma submit_begin_fields:
  "fst (travelForm_submit_begin pg) =
     pg\<lparr>loading_display := ''block'', result_display := ''none'',
        requests := requests pg @
          [post ''http://localhost:8000/plan-trip'' (trip_payload (read_form pg))]\<rparr>"
  "snd (travelForm_submit_begin pg) = read_form pg"
  by (simp_all add: travelForm_submit_begin_def Let_def fetch_def read_form_def)

lemma submit_settle_success:
  assumes "marked pg = Some mp" "d_plan d = Some plan" "d_success d"
  shows "travelForm_submit_settle p (Responded ok (Parsed d)) pg =
    pg\<lparr>planContent := mp plan,
        chatMessages := [],
        globals := \<lparr>currentTravelPlan = Some plan,
                    currentBudget = p_budget p,
                    currentTravelers = p_numTravelers p,
                    currentInterests = p_interests p,
                    currentIncludeFlights = p_includeFlights p,
                    currentSource = p_source p,
                    currentDestination = p_destination p,
                    currentStartDate = p_startDate p\<rparr>,
        chatBox_hidden := False,
        flightContent := (if truthy (d_flight_details d)
                          then mp (to_text (d_flight_details d)) else flightContent pg),
        flightDetails_hidden := (\<not> truthy (d_flight_details d)),
        result_display := ''block'',
        result_hidden := False,
        loading_display := ''none''\<rparr>"
  using assms(3)
  by (simp add: travelForm_submit_settle_def show_plan_loaded [OF assms(1,2)])

lemma submit_settle_v2_success:
  assumes "marked pg = Some mp" "d_plan d = Some plan"
  shows "travelForm_submit_settle_v2 (Responded True (Parsed d)) pg =
    pg\<lparr>planContent := mp plan,
        chatMessages := [],
        globals := (globals pg)\<lparr>currentTravelPlan := Some plan\<rparr>,
        chatBox_hidden := False,
        flightContent := (if truthy (d_flight_details d)
                          then mp (to_text (d_flight_details d)) else flightContent pg),
        flightDetails_hidden := (\<not> truthy (d_flight_details d)),
        result_hidden := False,
        loadingSpinner_hidden := True\<rparr>"
  by (simp add: travelForm_submit_settle_v2_def show_plan_v2_loaded [OF assms(1,2)])

text \<open>
  On a page where the \<^verbatim>\<open>marked\<close> library is loaded, a successful response that carries
  a plan (\<^verbatim>\<open>data.success\<close> truthy in \<^verbatim>\<open>part_000\<close>, \<^verbatim>\<open>response.ok\<close> in the second
  version of \<^verbatim>\<open>script.js\<close>) makes the result area visible with the rendered plan, empties
  the chat transcript, shows the chat box, and renders the flight details when the
  response has them (a non-empty \<^verbatim>\<open>flight_details\<close>) and hides that part otherwise.
  Nothing else happens: no alert and no further request.
\<close>

lemma successful_response_shows_plan_and_chat:
  assumes "marked pg = Some mp" and "d_plan d = Some plan"
  shows "(d_success d \<longrightarrow>
           (let pg' = travelForm_submit_settle p (Responded ok (Parsed d)) pg in
              result_display pg' = ''block'' \<and> \<not> result_hidden pg'
            \<and> planContent pg' = mp plan
            \<and> chatMessages pg' = []
            \<and> \<not> chatBox_hidden pg'
            \<and> (if truthy (d_flight_details d)
                then flightContent pg' = mp (to_text (d_flight_details d))
                   \<and> \<not> flightDetails_hidden pg'
                else flightDetails_hidden pg' \<and> flightContent pg' = flightContent pg)
            \<and> loading_display pg' = ''none''
            \<and> alerts pg' = alerts pg
            \<and> requests pg' = requests pg))
       \<and> (d_success d \<longrightarrow>
            requests (travelForm_submit (Responded ok (Parsed d)) pg)
              = requests pg @ [post ''http://localhost:8000/plan-trip''
                                 (trip_payload (read_form pg))]
          \<and> result_display (travelForm_submit (Responded ok (Parsed d)) pg) = ''block''
          \<and> \<not> result_hidden (travelForm_submit (Responded ok (Parsed d)) pg)
          \<and> chatMessages (travelForm_submit (Responded ok (Parsed d)) pg) = []
          \<and> \<not> chatBox_hidden (travelForm_submit (Responded ok (Parsed d)) pg))
       \<and> (let pg' = travelForm_submit_settle_v2 (Responded True (Parsed d)) pg in
              \<not> result_hidden pg'
            \<and> planContent pg' = mp plan
            \<and> chatMessages pg' = []
            \<and> \<not> chatBox_hidden pg'
            \<and> (if truthy (d_flight_details d)
                then flightContent pg' = mp (to_text (d_flight_details d))
                   \<and> \<not> flightDetails_hidden pg'
                else flightDetails_hidden pg' \<and> flightContent pg' = flightContent pg)
            \<and> loadingSpinner_hidden pg'
            \<and> alerts pg' = alerts pg
            \<and> requests pg' = requests pg)"
proof -
  have m: "marked (pg\<lparr>loading_display := ''block'', result_display := ''none'',
        requests := requests pg @
          [post ''http://localhost:8000/plan-trip'' (trip_payload (read_form pg))]\<rparr>) = Some mp"
    by (simp add: assms(1))
  have a: "d_success d \<longrightarrow>
           (let pg' = travelForm_submit_settle p (Responded ok (Parsed d)) pg in
              result_display pg' = ''block'' \<and> \<not> result_hidden pg'
            \<and> planContent pg' = mp plan
            \<and> chatMessages pg' = []
            \<and> \<not> chatBox_hidden pg'
            \<and> (if truthy (d_flight_details d)
                then flightContent pg' = mp (to_text (d_flight_details d))
                   \<and> \<not> flightDetails_hidden pg'
                else flightDetails_hidden pg' \<and> flightContent pg' = flightContent pg)
            \<and> loading_display pg' = ''none''
            \<and> alerts pg' = alerts pg
            \<and> requests pg' = requests pg)"
    by (simp add: submit_settle_success [OF assms] Let_def)
  have b: "d_success d \<longrightarrow>
            requests (travelForm_submit (Responded ok (Parsed d)) pg)
              = requests pg @ [post ''http://localhost:8000/plan-trip''
                                 (trip_payload (read_form pg))]
          \<and> result_display (travelForm_submit (Responded ok (Parsed d)) pg) = ''block''
          \<and> \<not> result_hidden (travelForm_submit (Responded ok (Parsed d)) pg)
          \<and> chatMessages (travelForm_submit (Responded ok (Parsed d)) pg) = []
          \<and> \<not> chatBox_hidden (travelForm_submit (Responded ok (Parsed d)) pg)"
    by (simp add: travelForm_submit_def submit_settle_success [OF m assms(2)]
        submit_begin_fields)
  have c: "(let pg' = travelForm_submit_settle_v2 (Responded True (Parsed d)) pg in
              \<not> result_hidden pg'
            \<and> planContent pg' = mp plan
            \<and> chatMessages pg' = []
            \<and> \<not> chatBox_hidden pg'
            \<and> (if truthy (d_flight_details d)
                then flightContent pg' = mp (to_text (d_flight_details d))
                   \<and> \<not> flightDetails_hidden pg'
                else flightDetails_hidden pg' \<and> flightContent pg' = flightContent pg)
            \<and> loadingSpinner_hidden pg'
            \<and> alerts pg' = alerts pg
            \<and> requests pg' = requests pg)"
    by (simp add: submit_settle_v2_success [OF assms] Let_def)
  from a b c show ?thesis by blast
qed

lemma successful_response_shows_plan_and_chat_example:
  "marked example_page = Some example_marked
   \<and> d_plan (example_data\<lparr>d_success := True, d_plan := Some ''Day 1'',
        d_flight_details := Some ''AF 007''\<rparr>) = Some ''Day 1''
   \<and> d_success (example_data\<lparr>d_success := True, d_plan := Some ''Day 1'',
        d_flight_details := Some ''AF 007''\<rparr>)
   \<and> result_display (travelForm_submit (Responded True (Parsed (example_data\<lparr>d_success := True,
        d_plan := Some ''Day 1'', d_flight_details := Some ''AF 007''\<rparr>))) example_page) = ''block''
   \<and> chatMessages (travelForm_submit (Responded True (Parsed (example_data\<lparr>d_success := True,
        d_plan := Some ''Day 1'', d_flight_details := Some ''AF 007''\<rparr>))) example_page) = []
   \<and> \<not> chatBox_hidden (travelForm_submit (Responded True (Parsed (example_data\<lparr>d_success := True,
        d_plan := Some ''Day 1'', d_flight_details := Some ''AF 007''\<rparr>))) example_page)
   \<and> flightContent (travelForm_submit_settle_v2 (Responded True (Parsed (example_data\<lparr>d_success := True,
        d_plan := Some ''Day 1'', d_flight_details := Some ''AF 007''\<rparr>))) example_page)
       = ''<p>AF 007</p>''"
proof -
  have m: "marked example_page = Some example_marked"
    by (simp add: example_page_def)
  have p: "d_plan (example_data\<lparr>d_success := True, d_plan := Some ''Day 1'',
        d_flight_details := Some ''AF 007''\<rparr>) = Some ''Day 1''"
    by simp
  show ?thesis
    using m successful_response_shows_plan_and_chat [OF m p, where ok = True]
    by (simp add: Let_def truthy_def to_text_def example_marked_def)
qed

lemma submit_settle_failure:
  assumes "\<not> d_success d"
  shows "travelForm_submit_settle p (Responded ok (Parsed d)) pg =
    pg\<lparr>planContent := ''<span style='color:red;'>'' @ error_text d @ ''</span>'',
        result_display := ''block'', result_hidden := False, loading_display := ''none''\<rparr>"
  using assms by (simp add: travelForm_submit_settle_def show_error_def)

lemma submit_settle_rejected:
  "travelForm_submit_settle p (Rejected m) pg =
    pg\<lparr>alerts := alerts pg @ [''Error connecting to the server: '' @ m],
        loading_display := ''none''\<rparr>"
  by (simp add: travelForm_submit_settle_def alert_def)

lemma submit_settle_unparseable:
  "travelForm_submit_settle p (Responded ok (Unparseable m)) pg =
    pg\<lparr>alerts := alerts pg @ [''Error connecting to the server: '' @ m],
        loading_display := ''none''\<rparr>"
  by (simp add: travelForm_submit_settle_def alert_def)

lemma submit_v1_failure:
  assumes "\<not> d_success d"
  shows "travelForm_submit_v1 (Responded ok (Parsed d)) pg =
    pg\<lparr>loading_display := ''none'', result_display := ''none'',
        requests := requests pg @
          [post ''http://localhost:8000/plan-trip'' (requestData_v1 pg)],
        alerts := alerts pg @ [''Error generating travel plan. Please try again.'']\<rparr>"
  using assms
  by (simp add: travelForm_submit_v1_def travelForm_submit_settle_v1_def
      travelForm_submit_begin_v1_def alert_def fetch_def Let_def requestData_v1_def)

lemma submit_settle_v2_not_ok:
  "travelForm_submit_settle_v2 (Responded False (Parsed d)) pg =
    pg\<lparr>alerts := alerts pg @ [''Error: '' @ to_text (d_detail d)],
        loadingSpinner_hidden := True\<rparr>"
  by (simp add: travelForm_submit_settle_v2_def alert_def)

lemma submit_begin_v2_checkbox:
  assumes "includeFlights (form pg) = Some b"
  shows "travelForm_submit_begin_v2 pg =
    Awaiting (pg\<lparr>loadingSpinner_hidden := False, result_hidden := True,
      requests := requests pg @
        [post ''http://localhost:8000/generate-plan'' (trip_payload_v2 pg b)]\<rparr>)"
  using assms
  by (simp add: travelForm_submit_begin_v2_def fetch_def Let_def trip_payload_v2_def)

text \<open>
  Claim C2, as stated, fails. In the first version of \<^verbatim>\<open>script.js\<close> the response
  \<^verbatim>\<open>{success: false, error: "Invalid dates"}\<close> leaves the result area hidden and empty
  and raises the generic alert; in the second version a response that is not OK with
  \<^verbatim>\<open>{detail: "Invalid dates"}\<close> leaves it hidden and empty and raises the alert
  \<^verbatim>\<open>Error: Invalid dates\<close>. In \<^verbatim>\<open>part_000\<close> the same response fills the result area
  with the generic text, not with the text of the structured error.
\<close>

theorem failure_is_alerted_in_script_js:
  "result_display (travelForm_submit_v1
       (Responded True (Parsed (example_data\<lparr>d_error := Some ''Invalid dates''\<rparr>)))
       example_page) = ''none''
   \<and> planContent (travelForm_submit_v1
       (Responded True (Parsed (example_data\<lparr>d_error := Some ''Invalid dates''\<rparr>)))
       example_page) = []
   \<and> alerts (travelForm_submit_v1
       (Responded True (Parsed (example_data\<lparr>d_error := Some ''Invalid dates''\<rparr>)))
       example_page) = [''Error generating travel plan. Please try again.'']
   \<and> result_hidden (page_of (travelForm_submit_v2
       (Responded False (Parsed (example_data\<lparr>d_detail := Some ''Invalid dates''\<rparr>)))
       example_page))
   \<and> planContent (page_of (travelForm_submit_v2
       (Responded False (Parsed (example_data\<lparr>d_detail := Some ''Invalid dates''\<rparr>)))
       example_page)) = []
   \<and> alerts (page_of (travelForm_submit_v2
       (Responded False (Parsed (example_data\<lparr>d_detail := Some ''Invalid dates''\<rparr>)))
       example_page)) = [''Error: Invalid dates'']
   \<and> planContent (travelForm_submit
       (Responded False (Parsed (example_data\<lparr>d_detail := Some ''Invalid dates''\<rparr>)))
       example_page)
     = ''<span style='color:red;'>Error generating travel plan. Please try again.</span>''"
proof -
  have s: "\<not> d_success (example_data\<lparr>d_error := Some ''Invalid dates''\<rparr>)"
          "\<not> d_success (example_data\<lparr>d_detail := Some ''Invalid dates''\<rparr>)"
    by (simp_all add: example_data_def)
  have i: "includeFlights (form example_page) = Some True"
    by (simp add: example_page_def example_form_def)
  have f: "planContent example_page = []" "alerts example_page = []"
    by (simp_all add: example_page_def)
  have e: "error_text (example_data\<lparr>d_detail := Some ''Invalid dates''\<rparr>)
             = ''Error generating travel plan. Please try again.''"
    by (simp add: error_text_def truthy_def example_data_def)
  show ?thesis
    by (simp add: submit_v1_failure [OF s(1)] travelForm_submit_v2_def
        submit_begin_v2_checkbox [OF i] submit_settle_v2_not_ok
        travelForm_submit_def submit_begin_fields submit_settle_failure [OF s(2)]
        f e to_text_def)
qed

text \<open>
  Claim C2, amended. In \<^verbatim>\<open>part_000\<close>, a response whose \<^verbatim>\<open>success\<close> field is false or
  absent, whatever its status, makes the result area visible with an error text in red:
  the \<^verbatim>\<open>error\<close> field when it is a non-empty string, otherwise the fixed text
  \<^verbatim>\<open>Error generating travel plan. Please try again.\<close> In the two versions of
  \<^verbatim>\<open>script.js\<close> the failure response (\<^verbatim>\<open>success\<close> false in the first, a status that is
  not OK in the second) raises an alert and the result area stays hidden, its content
  unchanged. In all three the chat box and the transcript stay as they were.
\<close>

theorem failure_response_display:
  "(\<not> d_success d \<longrightarrow>
      (let pg' = travelForm_submit_settle p (Responded ok (Parsed d)) pg in
         planContent pg' = ''<span style='color:red;'>'' @ error_text d @ ''</span>''
       \<and> result_display pg' = ''block'' \<and> \<not> result_hidden pg'
       \<and> chatBox_hidden pg' = chatBox_hidden pg
       \<and> chatMessages pg' = chatMessages pg
       \<and> alerts pg' = alerts pg))
   \<and> (truthy (d_error d) \<longrightarrow> error_text d = to_text (d_error d))
   \<and> (\<not> truthy (d_error d) \<longrightarrow>
        error_text d = ''Error generating travel plan. Please try again.'')
   \<and> (\<not> d_success d \<longrightarrow>
      (let pg' = travelForm_submit_v1 (Responded ok (Parsed d)) pg in
         result_display pg' = ''none''
       \<and> planContent pg' = planContent pg
       \<and> alerts pg' = alerts pg @ [''Error generating travel plan. Please try again.'']
       \<and> chatBox_hidden pg' = chatBox_hidden pg
       \<and> chatMessages pg' = chatMessages pg))
   \<and> (let pg' = travelForm_submit_settle_v2 (Responded False (Parsed d)) pg in
         result_hidden pg' = result_hidden pg
       \<and> planContent pg' = planContent pg
       \<and> alerts pg' = alerts pg @ [''Error: '' @ to_text (d_detail d)]
       \<and> chatBox_hidden pg' = chatBox_hidden pg
       \<and> chatMessages pg' = chatMessages pg)
   \<and> (includeFlights (form pg) \<noteq> None \<longrightarrow>
        result_hidden (page_of (travelForm_submit_v2 (Responded False (Parsed d)) pg)))"
proof -
  have a: "\<not> d_success d \<longrightarrow>
      (let pg' = travelForm_submit_settle p (Responded ok (Parsed d)) pg in
         planContent pg' = ''<span style='color:red;'>'' @ error_text d @ ''</span>''
       \<and> result_display pg' = ''block'' \<and> \<not> result_hidden pg'
       \<and> chatBox_hidden pg' = chatBox_hidden pg
       \<and> chatMessages pg' = chatMessages pg
       \<and> alerts pg' = alerts pg)"
    by (simp add: submit_settle_failure Let_def)
  have b1: "truthy (d_error d) \<longrightarrow> error_text d = to_text (d_error d)"
    by (simp add: error_text_def)
  have b2: "\<not> truthy (d_error d) \<longrightarrow>
              error_text d = ''Error generating travel plan. Please try again.''"
    by (simp add: error_text_def)
  have c: "\<not> d_success d \<longrightarrow>
      (let pg' = travelForm_submit_v1 (Responded ok (Parsed d)) pg in
         result_display pg' = ''none''
       \<and> planContent pg' = planContent pg
       \<and> alerts pg' = alerts pg @ [''Error generating travel plan. Please try again.'']
       \<and> chatBox_hidden pg' = chatBox_hidden pg
       \<and> chatMessages pg' = chatMessages pg)"
    by (simp add: submit_v1_failure Let_def)
  have d: "(let pg' = travelForm_submit_settle_v2 (Responded False (Parsed d)) pg in
         result_hidden pg' = result_hidden pg
       \<and> planContent pg' = planContent pg
       \<and> alerts pg' = alerts pg @ [''Error: '' @ to_text (d_detail d)]
       \<and> chatBox_hidden pg' = chatBox_hidden pg
       \<and> chatMessages pg' = chatMessages pg)"
    by (simp add: submit_settle_v2_not_ok Let_def)
  have e: "includeFlights (form pg) \<noteq> None \<longrightarrow>
        result_hidden (page_of (travelForm_submit_v2 (Responded False (Parsed d)) pg))"
  proof
    assume "includeFlights (form pg) \<noteq> None"
    then obtain b where "includeFlights (form pg) = Some b"
      by (cases "includeFlights (form pg)") simp_all
    then show "result_hidden (page_of (travelForm_submit_v2 (Responded False (Parsed d)) pg))"
      by (simp add: travelForm_submit_v2_def submit_begin_v2_checkbox submit_settle_v2_not_ok)
  qed
  show ?thesis
    by (intro conjI) (rule a b1 b2 c d e)+
qed

theorem failure_response_display_witness:
  "\<not> d_success (example_data\<lparr>d_error := Some ''Invalid dates''\<rparr>)
   \<and> truthy (d_error (example_data\<lparr>d_error := Some ''Invalid dates''\<rparr>))
   \<and> includeFlights (form example_page) \<noteq> None
   \<and> planContent (travelForm_submit_settle (read_form example_page)
        (Responded True (Parsed (example_data\<lparr>d_error := Some ''Invalid dates''\<rparr>))) example_page)
      = ''<span style='color:red;'>Invalid dates</span>''
   \<and> chatBox_hidden (travelForm_submit_settle (read_form example_page)
        (Responded True (Parsed (example_data\<lparr>d_error := Some ''Invalid dates''\<rparr>))) example_page)
   \<and> result_hidden (page_of (travelForm_submit_v2
        (Responded False (Parsed (example_data\<lparr>d_error := Some ''Invalid dates''\<rparr>))) example_page))"
proof -
  have s: "\<not> d_success (example_data\<lparr>d_error := Some ''Invalid dates''\<rparr>)"
    by (simp add: example_data_def)
  have t: "truthy (d_error (example_data\<lparr>d_error := Some ''Invalid dates''\<rparr>))"
    by (simp add: truthy_def)
  have i: "includeFlights (form example_page) \<noteq> None"
    by (simp add: example_page_def example_form_def)
  have c: "chatBox_hidden example_page"
    by (simp add: example_page_def)
  show ?thesis
    using s t i c failure_response_display [of "example_data\<lparr>d_error := Some ''Invalid dates''\<rparr>"
        "read_form example_page" True example_page]
    by (simp add: Let_def to_text_def)
qed

text \<open>
  Claim C1 fails in \<^verbatim>\<open>part_000\<close> on a page where \<^verbatim>\<open>marked\<close> is not defined. Line 50
  provides for that page and renders the plan in a \<^verbatim>\<open>pre\<close> element; lines 51 to 61
  empty the transcript, store the snapshot and show the chat box; but line 65 hands the
  flight details to \<^verbatim>\<open>marked.parse\<close> without the guard of line 50. A successful
  response with flight details therefore ends in the \<^verbatim>\<open>catch\<close>: an alert is raised, the
  result area stays hidden and the flight details are not rendered. The same response
  without flight details is displayed.
\<close>

theorem success_with_flight_details_without_marked:
  "result_display (travelForm_submit (Responded True (Parsed (example_data\<lparr>d_success := True,
       d_plan := Some ''Day 1'', d_flight_details := Some ''AF 007''\<rparr>)))
       example_page_without_marked) = ''none''
   \<and> flightDetails_hidden (travelForm_submit (Responded True (Parsed (example_data\<lparr>d_success := True,
       d_plan := Some ''Day 1'', d_flight_details := Some ''AF 007''\<rparr>)))
       example_page_without_marked)
   \<and> flightContent (travelForm_submit (Responded True (Parsed (example_data\<lparr>d_success := True,
       d_plan := Some ''Day 1'', d_flight_details := Some ''AF 007''\<rparr>)))
       example_page_without_marked) = []
   \<and> alerts (travelForm_submit (Responded True (Parsed (example_data\<lparr>d_success := True,
       d_plan := Some ''Day 1'', d_flight_details := Some ''AF 007''\<rparr>)))
       example_page_without_marked)
       = [''Error connecting to the server: marked is not defined'']
   \<and> planContent (travelForm_submit (Responded True (Parsed (example_data\<lparr>d_success := True,
       d_plan := Some ''Day 1'', d_flight_details := Some ''AF 007''\<rparr>)))
       example_page_without_marked) = ''<pre>Day 1</pre>''
   \<and> chatBox_hidden (travelForm_submit (Responded True (Parsed (example_data\<lparr>d_success := True,
       d_plan := Some ''Day 1'', d_flight_details := Some ''AF 007''\<rparr>)))
       example_page_without_marked) = False
   \<and> result_display (travelForm_submit (Responded True (Parsed (example_data\<lparr>d_success := True,
       d_plan := Some ''Day 1''\<rparr>))) example_page_without_marked) = ''block''"
  by (simp add: travelForm_submit_def submit_begin_fields travelForm_submit_settle_def
      show_plan_def marked_parse_def truthy_def to_text_def alert_def Let_def
      example_page_without_marked_def example_page_def example_data_def)

text \<open>
  Claim C3 fails in \<^verbatim>\<open>part_000\<close> on a page where \<^verbatim>\<open>marked\<close> is not defined, the case
  line 50 of the submit handler provides for. Once a plan has been displayed there, in a
  \<^verbatim>\<open>pre\<close> element, the chat box is visible; a call of \<^verbatim>\<open>sendMessage\<close> with the input
  \<^verbatim>\<open>hi\<close> clears the input and throws in its first \<^verbatim>\<open>addMessageToChat\<close> (line 97, at the
  \<^verbatim>\<open>marked.parse\<close> of line 145), outside the \<^verbatim>\<open>try\<close>: no user turn is appended, no
  request is issued, no assistant turn follows, and the error leaves the function.
\<close>

theorem sendMessage_without_marked_throws:
  "\<not> chatBox_hidden example_chat_page_without_marked
   \<and> chatMessages example_chat_page_without_marked = []
   \<and> length (requests example_chat_page_without_marked) = 1
   \<and> trim (chatInput example_chat_page_without_marked) = ''hi''
   \<and> is_Thrown (sendMessage
        (Responded True (Parsed (example_data\<lparr>d_response := Some ''Bonjour''\<rparr>)))
        example_chat_page_without_marked)
   \<and> thrown (sendMessage
        (Responded True (Parsed (example_data\<lparr>d_response := Some ''Bonjour''\<rparr>)))
        example_chat_page_without_marked) = ''marked is not defined''
   \<and> chatMessages (page_of (sendMessage
        (Responded True (Parsed (example_data\<lparr>d_response := Some ''Bonjour''\<rparr>)))
        example_chat_page_without_marked)) = []
   \<and> requests (page_of (sendMessage
        (Responded True (Parsed (example_data\<lparr>d_response := Some ''Bonjour''\<rparr>)))
        example_chat_page_without_marked)) = requests example_chat_page_without_marked
   \<and> chatInput (page_of (sendMessage
        (Responded True (Parsed (example_data\<lparr>d_response := Some ''Bonjour''\<rparr>)))
        example_chat_page_without_marked)) = []"
proof -
  have s: "d_success (example_data\<lparr>d_success := True, d_plan := Some ''Day 1''\<rparr>)"
    by simp
  have p: "example_chat_page_without_marked =
      example_page\<lparr>marked := None, loading_display := ''none'',
        requests := [post ''http://localhost:8000/plan-trip''
                       (trip_payload (read_form (example_page\<lparr>marked := None\<rparr>)))],
        planContent := ''<pre>Day 1</pre>'', chatMessages := [],
        globals := \<lparr>currentTravelPlan = Some ''Day 1'',
          currentBudget = p_budget (read_form (example_page\<lparr>marked := None\<rparr>)),
          currentTravelers = p_numTravelers (read_form (example_page\<lparr>marked := None\<rparr>)),
          currentInterests = p_interests (read_form (example_page\<lparr>marked := None\<rparr>)),
          currentIncludeFlights = p_includeFlights (read_form (example_page\<lparr>marked := None\<rparr>)),
          currentSource = p_source (read_form (example_page\<lparr>marked := None\<rparr>)),
          currentDestination = p_destination (read_form (example_page\<lparr>marked := None\<rparr>)),
          currentStartDate = p_startDate (read_form (example_page\<lparr>marked := None\<rparr>))\<rparr>,
        chatBox_hidden := False, flightDetails_hidden := True,
        result_display := ''block'', result_hidden := False, chatInput := ''hi''\<rparr>"
    by (simp add: example_chat_page_without_marked_def example_page_without_marked_def
        travelForm_submit_def submit_begin_fields travelForm_submit_settle_def show_plan_def
        truthy_def to_text_def example_data_def example_page_def Let_def)
  have t: "trim ''hi'' = ''hi''"
    by (simp add: trim_def is_ws_def)
  have b: "sendMessage_begin example_chat_page_without_marked =
             Thrown (example_chat_page_without_marked\<lparr>chatInput := []\<rparr>) ''marked is not defined''"
    unfolding p
    by (simp add: sendMessage_begin_def t addMessageToChat_def marked_parse_def Let_def)
  have c: "chatBox_hidden example_chat_page_without_marked = False"
    "chatMessages example_chat_page_without_marked = []"
    "length (requests example_chat_page_without_marked) = 1"
    "chatInput example_chat_page_without_marked = ''hi''"
    unfolding p by simp_all
  show ?thesis
    by (simp add: sendMessage_def b c t)
qed

lemma to_json_num: "to_json (VNum n) = Some (num_json n)"
  by (cases n) (simp_all add: num_json_def)

lemma JSON_chat_payload:
  "JSON_stringify (chat_payload g q) =
     JObj ([(''question'', JStr q)] @ opt_field ''travel_plan'' (currentTravelPlan g) @
           [(''budget'', num_json (currentBudget g)),
            (''travelers'', num_json (currentTravelers g)),
            (''interests'', JArr (map JStr (currentInterests g))),
            (''include_flights'', JBool (currentIncludeFlights g)),
            (''source'', JStr (currentSource g)),
            (''destination'', JStr (currentDestination g)),
            (''start_date'', JStr (currentStartDate g))])"
  by (cases "currentTravelPlan g")
     (simp_all add: JSON_stringify_def chat_payload_def to_json_num of_opt_def opt_field_def)

lemma JSON_chat_payload_v2:
  "JSON_stringify (chat_payload_v2 g q) =
     JObj ([(''question'', JStr q)] @ opt_field ''travel_plan'' (currentTravelPlan g))"
  by (cases "currentTravelPlan g")
     (simp_all add: JSON_stringify_def chat_payload_v2_def of_opt_def opt_field_def)

lemma sendMessage_begin_Awaiting:
  assumes "sendMessage_begin pg = Awaiting pgs"
  shows "requests pgs = requests pg @
           [post ''http://localhost:8000/chat''
              (chat_payload (globals pg) (trim (chatInput pg)))]"
    and "marked pg \<noteq> None" and "trim (chatInput pg) \<noteq> []"
  using assms
  by (auto simp: sendMessage_begin_def addMessageToChat_def marked_parse_def fetch_def Let_def
      split: if_splits option.splits sum.splits)

lemma sendMessage_begin_v2_Awaiting:
  assumes "sendMessage_begin_v2 pg = Awaiting pgs"
  shows "requests pgs = requests pg @
           [post ''http://localhost:8000/chat''
              (chat_payload_v2 (globals pg) (trim (chatInput pg)))]"
  using assms
  by (auto simp: sendMessage_begin_v2_def addMessageToChat_def marked_parse_def fetch_def
      Let_def split: if_splits option.splits sum.splits)

lemma sendMessage_begin_no_request:
  "\<not> is_Awaiting (sendMessage_begin pg) \<Longrightarrow>
   requests (page_of (sendMessage_begin pg)) = requests pg"
  by (auto simp: sendMessage_begin_def addMessageToChat_def marked_parse_def fetch_def Let_def
      split: if_splits option.splits sum.splits)

lemma sendMessage_begin_form:
  "requests (page_of (sendMessage_begin (pg\<lparr>form := f\<rparr>)))
     = requests (page_of (sendMessage_begin pg))"
  by (simp add: sendMessage_begin_def addMessageToChat_def marked_parse_def fetch_def Let_def
      split: option.splits)

lemma sendMessage_begin_v2_form:
  "requests (page_of (sendMessage_begin_v2 (pg\<lparr>form := f\<rparr>)))
     = requests (page_of (sendMessage_begin_v2 pg))"
  by (simp add: sendMessage_begin_v2_def addMessageToChat_def marked_parse_def fetch_def
      Let_def split: option.splits)

lemma requests_sendMessage_settle:
  "requests (page_of (sendMessage_settle r pg)) = requests pg"
  by (auto simp: sendMessage_settle_def sendMessage_catch_def addMessageToChat_def
      marked_parse_def split: fetch_result.splits json_body.splits sum.splits option.splits)

lemma globals_submit_settle_stored:
  assumes "d_success d" and "marked pgs = None \<or> d_plan d \<noteq> None"
  shows "globals (travelForm_submit_settle p (Responded ok (Parsed d)) pgs) =
           \<lparr>currentTravelPlan = d_plan d,
            currentBudget = p_budget p,
            currentTravelers = p_numTravelers p,
            currentInterests = p_interests p,
            currentIncludeFlights = p_includeFlights p,
            currentSource = p_source p,
            currentDestination = p_destination p,
            currentStartDate = p_startDate p\<rparr>"
  using assms
  by (auto simp: travelForm_submit_settle_def show_plan_def marked_parse_def alert_def Let_def
      split: option.splits)

lemma globals_submit_settle_v2_stored:
  assumes "marked pgs \<noteq> None" and "d_plan d \<noteq> None"
  shows "globals (travelForm_submit_settle_v2 (Responded True (Parsed d)) pgs) =
           (globals pgs)\<lparr>currentTravelPlan := d_plan d\<rparr>"
  using assms
  by (auto simp: travelForm_submit_settle_v2_def show_plan_v2_def marked_parse_def alert_def
      Let_def split: option.splits)

text \<open>
  Claim C7, as stated, fails for the second version of \<^verbatim>\<open>script.js\<close>, whose chat request
  carries no field of the trip request. After a plan has been displayed for the example
  form (budget 2000, two travellers, from NYC to Paris), the body of the request for the
  question \<^verbatim>\<open>hi\<close> holds the question and the plan, and nothing else.
\<close>

theorem chat_request_v2_has_no_trip_fields:
  "body (last (requests (page_of (sendMessage_begin_v2
      ((page_of (travelForm_submit_v2
          (Responded True (Parsed (example_data\<lparr>d_plan := Some ''Day 1''\<rparr>)))
          example_page))\<lparr>chatInput := ''hi''\<rparr>)))))
     = JObj [(''question'', JStr ''hi''), (''travel_plan'', JStr ''Day 1'')]
   \<and> json_field (body (last (requests (page_of (sendMessage_begin_v2
      ((page_of (travelForm_submit_v2
          (Responded True (Parsed (example_data\<lparr>d_plan := Some ''Day 1''\<rparr>)))
          example_page))\<lparr>chatInput := ''hi''\<rparr>)))))) ''budget'' = None
   \<and> json_field (body (last (requests (page_of (sendMessage_begin_v2
      ((page_of (travelForm_submit_v2
          (Responded True (Parsed (example_data\<lparr>d_plan := Some ''Day 1''\<rparr>)))
          example_page))\<lparr>chatInput := ''hi''\<rparr>)))))) ''destination'' = None
   \<and> budget (form example_page) = ''2000''
   \<and> destination (form example_page) = ''Paris''"
proof -
  have i: "includeFlights (form example_page) = Some True"
    by (simp add: example_page_def example_form_def)
  have m: "marked example_page = Some example_marked"
    by (simp add: example_page_def)
  have m1: "marked (example_page\<lparr>loadingSpinner_hidden := False, result_hidden := True,
      requests := requests example_page @
        [post ''http://localhost:8000/generate-plan'' (trip_payload_v2 example_page True)]\<rparr>)
      = Some example_marked"
    by (simp add: m)
  have p: "d_plan (example_data\<lparr>d_plan := Some ''Day 1''\<rparr>) = Some ''Day 1''"
    by simp
  have t: "trim ''hi'' = ''hi''"
    by (simp add: trim_def is_ws_def)
  have s: "page_of (travelForm_submit_v2
          (Responded True (Parsed (example_data\<lparr>d_plan := Some ''Day 1''\<rparr>))) example_page)
      = travelForm_submit_settle_v2
          (Responded True (Parsed (example_data\<lparr>d_plan := Some ''Day 1''\<rparr>)))
          (example_page\<lparr>loadingSpinner_hidden := False, result_hidden := True,
             requests := requests example_page @
               [post ''http://localhost:8000/generate-plan''
                  (trip_payload_v2 example_page True)]\<rparr>)"
    by (simp add: travelForm_submit_v2_def submit_begin_v2_checkbox [OF i])
  have g: "currentTravelPlan (globals (page_of (travelForm_submit_v2
          (Responded True (Parsed (example_data\<lparr>d_plan := Some ''Day 1''\<rparr>))) example_page)))
      = Some ''Day 1''"
    and k: "marked (page_of (travelForm_submit_v2
          (Responded True (Parsed (example_data\<lparr>d_plan := Some ''Day 1''\<rparr>))) example_page))
      = Some example_marked"
    unfolding s by (simp_all add: submit_settle_v2_success [OF m1 p] m)
  have k1: "marked ((page_of (travelForm_submit_v2
          (Responded True (Parsed (example_data\<lparr>d_plan := Some ''Day 1''\<rparr>)))
          example_page))\<lparr>chatInput := ''hi''\<rparr>) = Some example_marked"
    by (simp add: k)
  have n: "trim (chatInput ((page_of (travelForm_submit_v2
          (Responded True (Parsed (example_data\<lparr>d_plan := Some ''Day 1''\<rparr>)))
          example_page))\<lparr>chatInput := ''hi''\<rparr>)) \<noteq> []"
    by (simp add: t)
  have b: "body (last (requests (page_of (sendMessage_begin_v2
      ((page_of (travelForm_submit_v2
          (Responded True (Parsed (example_data\<lparr>d_plan := Some ''Day 1''\<rparr>)))
          example_page))\<lparr>chatInput := ''hi''\<rparr>)))))
     = JObj [(''question'', JStr ''hi''), (''travel_plan'', JStr ''Day 1'')]"
    by (simp add: sendMessage_begin_v2_loaded [OF k1 n] t g post_def JSON_chat_payload_v2
        opt_field_def)
  have f: "budget (form example_page) = ''2000''" "destination (form example_page) = ''Paris''"
    by (simp_all add: example_page_def example_form_def)
  show ?thesis
    by (simp add: b json_field_def f)
qed

text \<open>
  Claim C7, amended. In \<^verbatim>\<open>part_000\<close> every chat request that goes out is a POST of JSON
  to \<^verbatim>\<open>/chat\<close> whose body holds the new question and the stored snapshot: the plan and
  the budget, travellers, interests, flag for flights, source, destination and start
  date of the trip request that produced it. In the second version of \<^verbatim>\<open>script.js\<close> the
  body holds the question and the stored plan only. In both the values in the form do
  not enter the request. No step of \<^verbatim>\<open>sendMessage\<close> changes the snapshot. The snapshot is
  stored when a successful response is displayed, from the values the handler read when
  that submission began, whatever the form holds when the response arrives.
\<close>

theorem chat_request_from_snapshot:
  "(sendMessage_begin pg = Awaiting pgs \<longrightarrow>
      requests pgs = requests pg @
        [\<lparr>url = ''http://localhost:8000/chat'', http_method = ''POST'',
          content_type = ''application/json'',
          body = JObj ([(''question'', JStr (trim (chatInput pg)))] @
                   opt_field ''travel_plan'' (currentTravelPlan (globals pg)) @
                   [(''budget'', num_json (currentBudget (globals pg))),
                    (''travelers'', num_json (currentTravelers (globals pg))),
                    (''interests'', JArr (map JStr (currentInterests (globals pg)))),
                    (''include_flights'', JBool (currentIncludeFlights (globals pg))),
                    (''source'', JStr (currentSource (globals pg))),
                    (''destination'', JStr (currentDestination (globals pg))),
                    (''start_date'', JStr (currentStartDate (globals pg)))])\<rparr>])
   \<and> (\<not> is_Awaiting (sendMessage_begin pg) \<longrightarrow>
        requests (page_of (sendMessage_begin pg)) = requests pg)
   \<and> (sendMessage_begin_v2 pg = Awaiting pgs \<longrightarrow>
      requests pgs = requests pg @
        [\<lparr>url = ''http://localhost:8000/chat'', http_method = ''POST'',
          content_type = ''application/json'',
          body = JObj ([(''question'', JStr (trim (chatInput pg)))] @
                   opt_field ''travel_plan'' (currentTravelPlan (globals pg)))\<rparr>])
   \<and> requests (page_of (sendMessage_begin (pg\<lparr>form := f\<rparr>)))
       = requests (page_of (sendMessage_begin pg))
   \<and> requests (page_of (sendMessage_begin_v2 (pg\<lparr>form := f\<rparr>)))
       = requests (page_of (sendMessage_begin_v2 pg))
   \<and> requests (page_of (sendMessage_settle r pg)) = requests pg
   \<and> globals (page_of (sendMessage_begin pg)) = globals pg
   \<and> globals (page_of (sendMessage_begin_v2 pg)) = globals pg
   \<and> globals (page_of (sendMessage_settle r pg)) = globals pg
   \<and> (d_success d \<and> (marked pgt = None \<or> d_plan d \<noteq> None) \<longrightarrow>
        globals (travelForm_submit_settle (snd (travelForm_submit_begin pgb))
                   (Responded ok (Parsed d)) pgt)
          = \<lparr>currentTravelPlan = d_plan d,
             currentBudget = parseFloat (budget (form pgb)),
             currentTravelers = parseInt (numTravelers (form pgb)),
             currentInterests = map trim (split_comma (interests (form pgb))),
             currentIncludeFlights = (includeFlights (form pgb) = Some True),
             currentSource = source (form pgb),
             currentDestination = destination (form pgb),
             currentStartDate = startDate (form pgb)\<rparr>)
   \<and> (marked pgt \<noteq> None \<and> d_plan d \<noteq> None \<longrightarrow>
        globals (travelForm_submit_settle_v2 (Responded True (Parsed d)) pgt)
          = (globals pgt)\<lparr>currentTravelPlan := d_plan d\<rparr>)"
proof -
  have c1: "sendMessage_begin pg = Awaiting pgs \<longrightarrow>
      requests pgs = requests pg @
        [\<lparr>url = ''http://localhost:8000/chat'', http_method = ''POST'',
          content_type = ''application/json'',
          body = JObj ([(''question'', JStr (trim (chatInput pg)))] @
                   opt_field ''travel_plan'' (currentTravelPlan (globals pg)) @
                   [(''budget'', num_json (currentBudget (globals pg))),
                    (''travelers'', num_json (currentTravelers (globals pg))),
                    (''interests'', JArr (map JStr (currentInterests (globals pg)))),
                    (''include_flights'', JBool (currentIncludeFlights (globals pg))),
                    (''source'', JStr (currentSource (globals pg))),
                    (''destination'', JStr (currentDestination (globals pg))),
                    (''start_date'', JStr (currentStartDate (globals pg)))])\<rparr>]"
  proof
    assume "sendMessage_begin pg = Awaiting pgs"
    then have "requests pgs = requests pg @
           [post ''http://localhost:8000/chat''
              (chat_payload (globals pg) (trim (chatInput pg)))]"
      by (rule sendMessage_begin_Awaiting(1))
    then show "requests pgs = requests pg @
        [\<lparr>url = ''http://localhost:8000/chat'', http_method = ''POST'',
          content_type = ''application/json'',
          body = JObj ([(''question'', JStr (trim (chatInput pg)))] @
                   opt_field ''travel_plan'' (currentTravelPlan (globals pg)) @
                   [(''budget'', num_json (currentBudget (globals pg))),
                    (''travelers'', num_json (currentTravelers (globals pg))),
                    (''interests'', JArr (map JStr (currentInterests (globals pg)))),
                    (''include_flights'', JBool (currentIncludeFlights (globals pg))),
                    (''source'', JStr (currentSource (globals pg))),
                    (''destination'', JStr (currentDestination (globals pg))),
                    (''start_date'', JStr (currentStartDate (globals pg)))])\<rparr>]"
      by (simp only: post_def JSON_chat_payload)
  qed
  have c2: "\<not> is_Awaiting (sendMessage_begin pg) \<longrightarrow>
        requests (page_of (sendMessage_begin pg)) = requests pg"
    by (simp add: sendMessage_begin_no_request)
  have c3: "sendMessage_begin_v2 pg = Awaiting pgs \<longrightarrow>
      requests pgs = requests pg @
        [\<lparr>url = ''http://localhost:8000/chat'', http_method = ''POST'',
          content_type = ''application/json'',
          body = JObj ([(''question'', JStr (trim (chatInput pg)))] @
                   opt_field ''travel_plan'' (currentTravelPlan (globals pg)))\<rparr>]"
  proof
    assume "sendMessage_begin_v2 pg = Awaiting pgs"
    then have "requests pgs = requests pg @
           [post ''http://localhost:8000/chat''
              (chat_payload_v2 (globals pg) (trim (chatInput pg)))]"
      by (rule sendMessage_begin_v2_Awaiting)
    then show "requests pgs = requests pg @
        [\<lparr>url = ''http://localhost:8000/chat'', http_method = ''POST'',
          content_type = ''application/json'',
          body = JObj ([(''question'', JStr (trim (chatInput pg)))] @
                   opt_field ''travel_plan'' (currentTravelPlan (globals pg)))\<rparr>]"
      by (simp only: post_def JSON_chat_payload_v2)
  qed
  have c4: "requests (page_of (sendMessage_begin (pg\<lparr>form := f\<rparr>)))
       = requests (page_of (sendMessage_begin pg))"
    by (rule sendMessage_begin_form)
  have c5: "requests (page_of (sendMessage_begin_v2 (pg\<lparr>form := f\<rparr>)))
       = requests (page_of (sendMessage_begin_v2 pg))"
    by (rule sendMessage_begin_v2_form)
  have c6: "requests (page_of (sendMessage_settle r pg)) = requests pg"
    by (rule requests_sendMessage_settle)
  have c7: "globals (page_of (sendMessage_begin pg)) = globals pg"
    by (rule globals_sendMessage_begin)
  have c8: "globals (page_of (sendMessage_begin_v2 pg)) = globals pg"
    by (rule globals_sendMessage_begin_v2)
  have c9: "globals (page_of (sendMessage_settle r pg)) = globals pg"
    by (rule globals_sendMessage_settle)
  have c10: "d_success d \<and> (marked pgt = None \<or> d_plan d \<noteq> None) \<longrightarrow>
        globals (travelForm_submit_settle (snd (travelForm_submit_begin pgb))
                   (Responded ok (Parsed d)) pgt)
          = \<lparr>currentTravelPlan = d_plan d,
             currentBudget = parseFloat (budget (form pgb)),
             currentTravelers = parseInt (numTravelers (form pgb)),
             currentInterests = map trim (split_comma (interests (form pgb))),
             currentIncludeFlights = (includeFlights (form pgb) = Some True),
             currentSource = source (form pgb),
             currentDestination = destination (form pgb),
             currentStartDate = startDate (form pgb)\<rparr>"
  proof (intro impI, elim conjE)
    assume h: "d_success d" "marked pgt = None \<or> d_plan d \<noteq> None"
    show "globals (travelForm_submit_settle (snd (travelForm_submit_begin pgb))
                   (Responded ok (Parsed d)) pgt)
          = \<lparr>currentTravelPlan = d_plan d,
             currentBudget = parseFloat (budget (form pgb)),
             currentTravelers = parseInt (numTravelers (form pgb)),
             currentInterests = map trim (split_comma (interests (form pgb))),
             currentIncludeFlights = (includeFlights (form pgb) = Some True),
             currentSource = source (form pgb),
             currentDestination = destination (form pgb),
             currentStartDate = startDate (form pgb)\<rparr>"
      by (cases "includeFlights (form pgb)")
         (simp_all add: globals_submit_settle_stored [OF h] submit_begin_fields read_form_def)
  qed
  have c11: "marked pgt \<noteq> None \<and> d_plan d \<noteq> None \<longrightarrow>
        globals (travelForm_submit_settle_v2 (Responded True (Parsed d)) pgt)
          = (globals pgt)\<lparr>currentTravelPlan := d_plan d\<rparr>"
    using globals_submit_settle_v2_stored [of pgt d] by blast
  show ?thesis
    by (intro conjI) (rule c1 c2 c3 c4 c5 c6 c7 c8 c9 c10 c11)+
qed

theorem chat_request_from_snapshot_witness:
  "sendMessage_begin (example_page\<lparr>chatInput := ''hi''\<rparr>)
     = Awaiting (page_of (sendMessage_begin (example_page\<lparr>chatInput := ''hi''\<rparr>)))
   \<and> requests (page_of (sendMessage_begin (example_page\<lparr>chatInput := ''hi''\<rparr>)))
       = [\<lparr>url = ''http://localhost:8000/chat'', http_method = ''POST'',
           content_type = ''application/json'',
           body = JObj [(''question'', JStr ''hi''), (''travel_plan'', JStr []),
                        (''budget'', JNum 0), (''travelers'', JNum 1),
                        (''interests'', JArr []), (''include_flights'', JBool False),
                        (''source'', JStr []), (''destination'', JStr []),
                        (''start_date'', JStr [])]\<rparr>]
   \<and> d_success (example_data\<lparr>d_success := True, d_plan := Some ''Day 1''\<rparr>)
   \<and> d_plan (example_data\<lparr>d_success := True, d_plan := Some ''Day 1''\<rparr>) \<noteq> None
   \<and> globals (travelForm_submit_settle (snd (travelForm_submit_begin example_page))
        (Responded True (Parsed (example_data\<lparr>d_success := True, d_plan := Some ''Day 1''\<rparr>)))
        (example_page\<lparr>form := example_form\<lparr>budget := ''1''\<rparr>\<rparr>))
       = \<lparr>currentTravelPlan = Some ''Day 1'', currentBudget = Num 2000,
          currentTravelers = Num 2, currentInterests = [''art'', ''food''],
          currentIncludeFlights = True, currentSource = ''NYC'',
          currentDestination = ''Paris'', currentStartDate = ''2024-06-01''\<rparr>"
proof -
  have m: "marked (example_page\<lparr>chatInput := ''hi''\<rparr>) = Some example_marked"
    by (simp add: example_page_def)
  have t: "trim ''hi'' = ''hi''"
    by (simp add: trim_def is_ws_def)
  have n: "trim (chatInput (example_page\<lparr>chatInput := ''hi''\<rparr>)) \<noteq> []"
    by (simp add: t)
  have h: "sendMessage_begin (example_page\<lparr>chatInput := ''hi''\<rparr>)
     = Awaiting (page_of (sendMessage_begin (example_page\<lparr>chatInput := ''hi''\<rparr>)))"
    by (simp add: sendMessage_begin_loaded [OF m n])
  have g: "globals example_page = initial_globals" "requests example_page = []"
    "form example_page = example_form"
    by (simp_all add: example_page_def)
  have s: "d_success (example_data\<lparr>d_success := True, d_plan := Some ''Day 1''\<rparr>)
      \<and> (marked (example_page\<lparr>form := example_form\<lparr>budget := ''1''\<rparr>\<rparr>) = None
         \<or> d_plan (example_data\<lparr>d_success := True, d_plan := Some ''Day 1''\<rparr>) \<noteq> None)"
    by simp
  note th = chat_request_from_snapshot
    [where pg = "example_page\<lparr>chatInput := ''hi''\<rparr>"
       and pgs = "page_of (sendMessage_begin (example_page\<lparr>chatInput := ''hi''\<rparr>))"
       and d = "example_data\<lparr>d_success := True, d_plan := Some ''Day 1''\<rparr>"
       and pgb = example_page
       and pgt = "example_page\<lparr>form := example_form\<lparr>budget := ''1''\<rparr>\<rparr>" and ok = True]
  have a: "requests (page_of (sendMessage_begin (example_page\<lparr>chatInput := ''hi''\<rparr>)))
       = [\<lparr>url = ''http://localhost:8000/chat'', http_method = ''POST'',
           content_type = ''application/json'',
           body = JObj [(''question'', JStr ''hi''), (''travel_plan'', JStr []),
                        (''budget'', JNum 0), (''travelers'', JNum 1),
                        (''interests'', JArr []), (''include_flights'', JBool False),
                        (''source'', JStr []), (''destination'', JStr []),
                        (''start_date'', JStr [])]\<rparr>]"
    using th [THEN conjunct1, THEN mp, OF h]
    by (simp add: t g initial_globals_def opt_field_def num_json_def)
  have z: "globals (travelForm_submit_settle (snd (travelForm_submit_begin example_page))
        (Responded True (Parsed (example_data\<lparr>d_success := True, d_plan := Some ''Day 1''\<rparr>)))
        (example_page\<lparr>form := example_form\<lparr>budget := ''1''\<rparr>\<rparr>))
       = \<lparr>currentTravelPlan = Some ''Day 1'', currentBudget = Num 2000,
          currentTravelers = Num 2, currentInterests = [''art'', ''food''],
          currentIncludeFlights = True, currentSource = ''NYC'',
          currentDestination = ''Paris'', currentStartDate = ''2024-06-01''\<rparr>"
    using th [THEN conjunct2, THEN conjunct2, THEN conjunct2, THEN conjunct2,
              THEN conjunct2, THEN conjunct2, THEN conjunct2, THEN conjunct2,
              THEN conjunct2, THEN conjunct1, THEN mp, OF s]
    by (simp add: g example_form_def example_values trim_def is_ws_def)
  show ?thesis
    using h a z by simp
qed

text \<open>
  Claim C10. A submission that fails in transport (the request is rejected or the body
  is not JSON) or in the business logic (\<^verbatim>\<open>data.success\<close> is false or absent) leaves
  all the globals of the snapshot and the chat transcript as they were, in both steps of
  the handler; the body of a later chat request is therefore built from the snapshot of
  the previous plan.
\<close>

theorem failed_submission_keeps_snapshot:
  assumes "transport_failure r \<or> business_failure r"
  shows "globals (travelForm_submit_settle p r pg) = globals pg
       \<and> chatMessages (travelForm_submit_settle p r pg) = chatMessages pg
       \<and> globals (fst (travelForm_submit_begin pg)) = globals pg
       \<and> chatMessages (fst (travelForm_submit_begin pg)) = chatMessages pg
       \<and> globals (travelForm_submit r pg) = globals pg
       \<and> chatMessages (travelForm_submit r pg) = chatMessages pg
       \<and> chat_payload (globals (travelForm_submit r pg)) question
           = chat_payload (globals pg) question"
proof -
  have s: "globals (travelForm_submit_settle p r pg) = globals pg
         \<and> chatMessages (travelForm_submit_settle p r pg) = chatMessages pg" for p pg
  proof (cases r)
    case (Rejected m)
    then show ?thesis
      by (simp add: submit_settle_rejected)
  next
    case (Responded ok b)
    show ?thesis
    proof (cases b)
      case (Unparseable m)
      with Responded show ?thesis
        by (simp add: submit_settle_unparseable)
    next
      case (Parsed d)
      with Responded assms have "\<not> d_success d"
        by (simp add: transport_failure_def business_failure_def)
      with Responded Parsed show ?thesis
        by (simp add: submit_settle_failure)
    qed
  qed
  have b: "globals (fst (travelForm_submit_begin pg)) = globals pg
         \<and> chatMessages (fst (travelForm_submit_begin pg)) = chatMessages pg"
    by (simp add: submit_begin_fields)
  have c: "globals (travelForm_submit r pg) = globals pg
         \<and> chatMessages (travelForm_submit r pg) = chatMessages pg"
    using s [of "snd (travelForm_submit_begin pg)" "fst (travelForm_submit_begin pg)"] b
    by (simp add: travelForm_submit_def)
  from s [of p pg] b c show ?thesis
    by simp
qed

theorem failed_submission_keeps_snapshot_witness:
  "(transport_failure (Rejected ''Failed to fetch'') \<or> business_failure (Rejected ''Failed to fetch''))
   \<and> globals (travelForm_submit (Rejected ''Failed to fetch'') example_page) = initial_globals
   \<and> chatMessages (travelForm_submit (Rejected ''Failed to fetch'') example_page) = []"
proof -
  have h: "transport_failure (Rejected ''Failed to fetch'') \<or> business_failure (Rejected ''Failed to fetch'')"
    by (simp add: transport_failure_def)
  have g: "globals example_page = initial_globals" "chatMessages example_page = []"
    by (simp_all add: example_page_def)
  show ?thesis
    using h failed_submission_keeps_snapshot [OF h, of _ example_page]
    by (simp add: g)
qed

subsection \<open>The trip request\<close>

lemma submit_begin_v1_fields:
  "travelForm_submit_begin_v1 pg =
     pg\<lparr>loading_display := ''block'', result_display := ''none'',
        requests := requests pg @
          [post ''http://localhost:8000/plan-trip'' (requestData_v1 pg)]\<rparr>"
  by (simp add: travelForm_submit_begin_v1_def Let_def fetch_def requestData_v1_def)

lemma requests_submit_settle: "requests (travelForm_submit_settle p r pg) = requests pg"
proof (cases r)
  case (Rejected m)
  then show ?thesis by (simp add: submit_settle_rejected)
next
  case (Responded ok b)
  show ?thesis
  proof (cases b)
    case (Unparseable m)
    with Responded show ?thesis by (simp add: submit_settle_unparseable)
  next
    case (Parsed d)
    with Responded show ?thesis
      by (auto simp: travelForm_submit_settle_def show_plan_def show_error_def alert_def
          marked_parse_def Let_def split: option.splits sum.splits prod.splits)
  qed
qed

lemma requests_submit_settle_v1: "requests (travelForm_submit_settle_v1 r pg) = requests pg"
  by (simp add: travelForm_submit_settle_v1_def alert_def Let_def
      split: fetch_result.splits json_body.splits option.splits)

text \<open>
  Claim C4. For every content of the form, a submission issues exactly one request (the
  first step appends one to the log, the second step none): a POST of JSON to
  \<^verbatim>\<open>/plan-trip\<close> whose payload is the form field by field: source, destination and the
  two dates as the strings they are, the budget through \<^verbatim>\<open>parseFloat\<close>, the number of
  travellers through \<^verbatim>\<open>parseInt\<close>, the interests split at the commas and trimmed. On a
  string of digits both parsers give the Number value of the integer the digits denote,
  which is that integer itself below \<open>2 ^ 53\<close>, and \<^verbatim>\<open>parseFloat\<close> reads a decimal
  fraction. With budget \<^verbatim>\<open>2000\<close>, travellers \<^verbatim>\<open>2\<close> and interests \<^verbatim>\<open>art, food\<close> the body
  carries 2000, 2 and the list of \<^verbatim>\<open>art\<close> and \<^verbatim>\<open>food\<close>. The first version of
  \<^verbatim>\<open>script.js\<close> sends the same payload without the flag for flights.
\<close>

theorem submit_request_payload:
  "requests (fst (travelForm_submit_begin pg))
     = requests pg @
       [\<lparr>url = ''http://localhost:8000/plan-trip'', http_method = ''POST'',
         content_type = ''application/json'',
         body = JSON_stringify
           [(''source'', VStr (source (form pg))),
            (''destination'', VStr (destination (form pg))),
            (''start_date'', VStr (startDate (form pg))),
            (''end_date'', VStr (endDate (form pg))),
            (''budget'', VNum (parseFloat (budget (form pg)))),
            (''num_travelers'', VNum (parseInt (numTravelers (form pg)))),
            (''interests'', VStrs (map trim (split_comma (interests (form pg))))),
            (''include_flights'', VBool (includeFlights (form pg) = Some True))]\<rparr>]
   \<and> requests (travelForm_submit_begin_v1 pg)
     = requests pg @
       [\<lparr>url = ''http://localhost:8000/plan-trip'', http_method = ''POST'',
         content_type = ''application/json'',
         body = JSON_stringify
           [(''source'', VStr (source (form pg))),
            (''destination'', VStr (destination (form pg))),
            (''start_date'', VStr (startDate (form pg))),
            (''end_date'', VStr (endDate (form pg))),
            (''budget'', VNum (parseFloat (budget (form pg)))),
            (''num_travelers'', VNum (parseInt (numTravelers (form pg)))),
            (''interests'', VStrs (map trim (split_comma (interests (form pg)))))]\<rparr>]
   \<and> requests (travelForm_submit r pg) = requests (fst (travelForm_submit_begin pg))
   \<and> requests (travelForm_submit_v1 r pg) = requests (travelForm_submit_begin_v1 pg)
   \<and> (digits ds \<longrightarrow> parseInt ds = number_value (of_nat (decimal ds))
                    \<and> parseFloat ds = number_value (of_nat (decimal ds)))
   \<and> (digits ds \<and> decimal ds < 2 ^ 53 \<longrightarrow>
        parseInt ds = Num (of_nat (decimal ds)) \<and> parseFloat ds = Num (of_nat (decimal ds)))
   \<and> (digits ds \<and> (\<forall>c\<in>set fs. is_digit c) \<longrightarrow>
        parseFloat (ds @ ''.'' @ fs)
          = number_value (of_nat (decimal (ds @ fs)) / 10 ^ length fs))
   \<and> body (last (requests (fst (travelForm_submit_begin
        (pg\<lparr>form := (form pg)\<lparr>budget := ''2000'', numTravelers := ''2'',
                                interests := ''art, food''\<rparr>\<rparr>)))))
     = JObj [(''source'', JStr (source (form pg))),
             (''destination'', JStr (destination (form pg))),
             (''start_date'', JStr (startDate (form pg))),
             (''end_date'', JStr (endDate (form pg))),
             (''budget'', JNum 2000),
             (''num_travelers'', JNum 2),
             (''interests'', JArr [JStr ''art'', JStr ''food'']),
             (''include_flights'', JBool (includeFlights (form pg) = Some True))]"
proof -
  have a: "requests (fst (travelForm_submit_begin pg))
     = requests pg @
       [\<lparr>url = ''http://localhost:8000/plan-trip'', http_method = ''POST'',
         content_type = ''application/json'',
         body = JSON_stringify
           [(''source'', VStr (source (form pg))),
            (''destination'', VStr (destination (form pg))),
            (''start_date'', VStr (startDate (form pg))),
            (''end_date'', VStr (endDate (form pg))),
            (''budget'', VNum (parseFloat (budget (form pg)))),
            (''num_travelers'', VNum (parseInt (numTravelers (form pg)))),
            (''interests'', VStrs (map trim (split_comma (interests (form pg))))),
            (''include_flights'', VBool (includeFlights (form pg) = Some True))]\<rparr>]" for pg
    by (cases "includeFlights (form pg)")
       (simp_all add: submit_begin_fields trip_payload_def read_form_def post_def)
  have b: "requests (travelForm_submit_begin_v1 pg)
     = requests pg @
       [\<lparr>url = ''http://localhost:8000/plan-trip'', http_method = ''POST'',
         content_type = ''application/json'',
         body = JSON_stringify
           [(''source'', VStr (source (form pg))),
            (''destination'', VStr (destination (form pg))),
            (''start_date'', VStr (startDate (form pg))),
            (''end_date'', VStr (endDate (form pg))),
            (''budget'', VNum (parseFloat (budget (form pg)))),
            (''num_travelers'', VNum (parseInt (numTravelers (form pg)))),
            (''interests'', VStrs (map trim (split_comma (interests (form pg)))))]\<rparr>]"
    by (simp add: submit_begin_v1_fields requestData_v1_def post_def)
  have c: "requests (travelForm_submit r pg) = requests (fst (travelForm_submit_begin pg))"
    by (simp add: travelForm_submit_def requests_submit_settle)
  have c1: "requests (travelForm_submit_v1 r pg) = requests (travelForm_submit_begin_v1 pg)"
    by (simp add: travelForm_submit_v1_def requests_submit_settle_v1)
  have d: "digits ds \<longrightarrow> parseInt ds = number_value (of_nat (decimal ds))
                    \<and> parseFloat ds = number_value (of_nat (decimal ds))"
    by (simp add: parseInt_digits parseFloat_digits)
  have d2: "digits ds \<and> decimal ds < 2 ^ 53 \<longrightarrow>
        parseInt ds = Num (of_nat (decimal ds)) \<and> parseFloat ds = Num (of_nat (decimal ds))"
    by (simp add: parseInt_digits parseFloat_digits number_value_nat)
  have e: "digits ds \<and> (\<forall>c\<in>set fs. is_digit c) \<longrightarrow>
        parseFloat (ds @ ''.'' @ fs)
          = number_value (of_nat (decimal (ds @ fs)) / 10 ^ length fs)"
    using parseFloat_fraction [of ds fs] by blast
  have f: "body (last (requests (fst (travelForm_submit_begin
        (pg\<lparr>form := (form pg)\<lparr>budget := ''2000'', numTravelers := ''2'',
                                interests := ''art, food''\<rparr>\<rparr>)))))
     = JObj [(''source'', JStr (source (form pg))),
             (''destination'', JStr (destination (form pg))),
             (''start_date'', JStr (startDate (form pg))),
             (''end_date'', JStr (endDate (form pg))),
             (''budget'', JNum 2000),
             (''num_travelers'', JNum 2),
             (''interests'', JArr [JStr ''art'', JStr ''food'']),
             (''include_flights'', JBool (includeFlights (form pg) = Some True))]"
    by (simp add: a JSON_stringify_def example_values trim_def is_ws_def)
  show ?thesis
    by (intro conjI) (rule a b c c1 d d2 e f)+
qed

theorem submit_request_payload_witness:
  "digits ''2000'' \<and> decimal ''2000'' < 2 ^ 53
   \<and> parseInt ''2000'' = Num 2000
   \<and> parseFloat ''2000'' = Num 2000
   \<and> length (requests (travelForm_submit (Rejected ''Failed to fetch'') example_page)) = 1
   \<and> body (last (requests (fst (travelForm_submit_begin example_page))))
     = JObj [(''source'', JStr ''NYC''), (''destination'', JStr ''Paris''),
             (''start_date'', JStr ''2024-06-01''), (''end_date'', JStr ''2024-06-10''),
             (''budget'', JNum 2000), (''num_travelers'', JNum 2),
             (''interests'', JArr [JStr ''art'', JStr ''food'']),
             (''include_flights'', JBool True)]"
proof -
  have d: "digits ''2000''"
    by (simp add: digits_def is_digit_def)
  have v: "decimal ''2000'' = 2000"
    by (simp add: decimal_def digit_val_def)
  have w: "decimal ''2000'' < 2 ^ 53"
    by (simp add: v)
  have e: "example_page\<lparr>form := (form example_page)\<lparr>budget := ''2000'', numTravelers := ''2'',
                                interests := ''art, food''\<rparr>\<rparr> = example_page"
    by (simp add: example_page_def example_form_def)
  have r: "requests example_page = []"
    by (simp add: example_page_def)
  note th = submit_request_payload
    [of example_page "Rejected ''Failed to fetch''" "''2000''"]
  have a: "parseInt ''2000'' = Num 2000 \<and> parseFloat ''2000'' = Num 2000"
    using th [THEN conjunct2, THEN conjunct2, THEN conjunct2, THEN conjunct2, THEN conjunct2,
              THEN conjunct1] d w
    by (simp add: v)
  have n: "length (requests (travelForm_submit (Rejected ''Failed to fetch'') example_page)) = 1"
    using th [THEN conjunct1] th [THEN conjunct2, THEN conjunct2, THEN conjunct1]
    by (simp add: r)
  have c: "body (last (requests (fst (travelForm_submit_begin example_page))))
     = JObj [(''source'', JStr ''NYC''), (''destination'', JStr ''Paris''),
             (''start_date'', JStr ''2024-06-01''), (''end_date'', JStr ''2024-06-10''),
             (''budget'', JNum 2000), (''num_travelers'', JNum 2),
             (''interests'', JArr [JStr ''art'', JStr ''food'']),
             (''include_flights'', JBool True)]"
    using th [THEN conjunct2, THEN conjunct2, THEN conjunct2, THEN conjunct2, THEN conjunct2,
              THEN conjunct2, THEN conjunct2]
    unfolding e by (simp add: example_page_def example_form_def)
  show ?thesis
    using d w a n c by simp
qed

text \<open>
  Claim C5. In every version of the handler the interests sent are the raw string split
  at its commas, each token trimmed. The split is the one whose tokens hold no comma and,
  joined again with commas, give the raw string back; trimming removes white space at the
  two ends of a token and nothing else. No token is left out: there is one more token
  than there are commas, and a raw string that ends in a comma gives a last entry that
  is the empty string.
\<close>

theorem interests_split_and_trimmed:
  "p_interests (snd (travelForm_submit_begin pg)) = map trim (split_comma (interests (form pg)))
   \<and> map_of (trip_payload (snd (travelForm_submit_begin pg))) ''interests''
       = Some (VStrs (map trim (split_comma (interests (form pg)))))
   \<and> map_of (requestData_v1 pg) ''interests''
       = Some (VStrs (map trim (split_comma (interests (form pg)))))
   \<and> map_of (trip_payload_v2 pg b) ''interests''
       = Some (VStrs (map trim (split_comma (interests (form pg)))))
   \<and> join_comma (split_comma s) = s
   \<and> (\<forall>t\<in>set (split_comma s). CHR '','' \<notin> set t)
   \<and> length (map trim (split_comma s)) = Suc (count_list s (CHR '',''))
   \<and> map trim (split_comma (s @ '','')) = map trim (split_comma s) @ ['''']
   \<and> t = takeWhile is_ws t @ trim t @ rev (takeWhile is_ws (rev (dropWhile is_ws t)))
   \<and> blank (takeWhile is_ws t)
   \<and> blank (rev (takeWhile is_ws (rev (dropWhile is_ws t))))
   \<and> (trim t = [] \<or> (\<not> is_ws (hd (trim t)) \<and> \<not> is_ws (last (trim t))))"
proof -
  have a: "p_interests (snd (travelForm_submit_begin pg))
             = map trim (split_comma (interests (form pg)))"
    by (simp add: submit_begin_fields read_form_def)
  have b: "map_of (trip_payload (snd (travelForm_submit_begin pg))) ''interests''
       = Some (VStrs (map trim (split_comma (interests (form pg)))))"
    by (simp add: submit_begin_fields read_form_def trip_payload_def)
  have c: "map_of (requestData_v1 pg) ''interests''
       = Some (VStrs (map trim (split_comma (interests (form pg)))))"
    by (simp add: requestData_v1_def)
  have d: "map_of (trip_payload_v2 pg b) ''interests''
       = Some (VStrs (map trim (split_comma (interests (form pg)))))"
    by (simp add: trip_payload_v2_def)
  have e: "join_comma (split_comma s) = s"
    by (rule join_split_comma)
  have f: "\<forall>t\<in>set (split_comma s). CHR '','' \<notin> set t"
    using split_comma_no_comma by blast
  have g: "length (map trim (split_comma s)) = Suc (count_list s (CHR '',''))"
    by (simp add: length_split_comma)
  have h: "map trim (split_comma (s @ '','')) = map trim (split_comma s) @ ['''']"
    by (simp add: split_comma_trailing trim_Nil)
  have i: "t = takeWhile is_ws t @ trim t @ rev (takeWhile is_ws (rev (dropWhile is_ws t)))"
    by (rule trim_decomposition)
  have k: "blank (takeWhile is_ws t)"
    by (rule blank_takeWhile)
  have l: "blank (rev (takeWhile is_ws (rev (dropWhile is_ws t))))"
    by (rule blank_rev_takeWhile)
  have j: "trim t = [] \<or> (\<not> is_ws (hd (trim t)) \<and> \<not> is_ws (last (trim t)))"
    using trim_ends [of t] by blast
  show ?thesis
    by (intro conjI) (rule a b c d e f g h i k l j)+
qed

theorem interests_split_and_trimmed_witness:
  "map trim (split_comma (''art, food'' @ '','')) = [''art'', ''food'', '''']
   \<and> length (map trim (split_comma ''art, food,'')) = 3
   \<and> '' food'' \<in> set (split_comma ''art, food,'') \<and> CHR '','' \<notin> set '' food''
   \<and> trim '' food'' = ''food'' \<and> \<not> is_ws (hd (trim '' food'')) \<and> \<not> is_ws (last (trim '' food''))
   \<and> p_interests (snd (travelForm_submit_begin
         (example_page\<lparr>form := example_form\<lparr>interests := ''art, food,''\<rparr>\<rparr>)))
       = [''art'', ''food'', '''']"
proof -
  note th = interests_split_and_trimmed
    [of "example_page\<lparr>form := example_form\<lparr>interests := ''art, food,''\<rparr>\<rparr>" _ "''art, food''"
        "'' food''"]
  note th2 = interests_split_and_trimmed [of _ _ "''art, food,''"]
  have a: "map trim (split_comma (''art, food'' @ '','')) = [''art'', ''food'', '''']"
    using th [THEN conjunct2, THEN conjunct2, THEN conjunct2, THEN conjunct2, THEN conjunct2,
              THEN conjunct2, THEN conjunct2, THEN conjunct1]
    by (simp add: trim_def is_ws_def)
  have b: "length (map trim (split_comma ''art, food,'')) = 3"
    using th2 [THEN conjunct2, THEN conjunct2, THEN conjunct2, THEN conjunct2, THEN conjunct2,
               THEN conjunct2, THEN conjunct1]
    by simp
  have m: "'' food'' \<in> set (split_comma ''art, food,'')"
    by simp
  have c: "CHR '','' \<notin> set '' food''"
    using th2 [THEN conjunct2, THEN conjunct2, THEN conjunct2, THEN conjunct2, THEN conjunct2,
               THEN conjunct1, THEN bspec, OF m] .
  have n: "trim '' food'' = ''food''"
    by (simp add: trim_def is_ws_def)
  have d: "\<not> is_ws (hd (trim '' food'')) \<and> \<not> is_ws (last (trim '' food''))"
    using th [THEN conjunct2, THEN conjunct2, THEN conjunct2, THEN conjunct2, THEN conjunct2,
              THEN conjunct2, THEN conjunct2, THEN conjunct2, THEN conjunct2, THEN conjunct2,
              THEN conjunct2]
    by (simp add: n)
  have e: "p_interests (snd (travelForm_submit_begin
         (example_page\<lparr>form := example_form\<lparr>interests := ''art, food,''\<rparr>\<rparr>)))
       = [''art'', ''food'', '''']"
    using th [THEN conjunct1]
    by (simp add: trim_def is_ws_def)
  show ?thesis
    using a b m c n d e by simp
qed

text \<open>
  Claim C9. No validation stands between the form and the request: whatever the budget
  field holds, the first step of the handler issues the request, with the result of
  \<^verbatim>\<open>parseFloat\<close> as budget. That result is \<^verbatim>\<open>NaN\<close> exactly for a string that does not
  begin with a numeral; the handler hands it to \<^verbatim>\<open>JSON.stringify\<close> as it is, which
  writes it as \<^verbatim>\<open>null\<close>. The same holds for the first version of \<^verbatim>\<open>script.js\<close>.
\<close>

theorem non_numeric_budget_is_forwarded:
  "requests (fst (travelForm_submit_begin pg))
     = requests pg @ [post ''http://localhost:8000/plan-trip''
                        (trip_payload (snd (travelForm_submit_begin pg)))]
   \<and> map_of (trip_payload (snd (travelForm_submit_begin pg))) ''budget''
     = Some (VNum (parseFloat (budget (form pg))))
   \<and> requests (travelForm_submit_begin_v1 pg)
     = requests pg @ [post ''http://localhost:8000/plan-trip'' (requestData_v1 pg)]
   \<and> map_of (requestData_v1 pg) ''budget'' = Some (VNum (parseFloat (budget (form pg))))
   \<and> (parseFloat s = NaN \<longleftrightarrow> non_numeric s)
   \<and> (non_numeric (budget (form pg)) \<longrightarrow>
        parseFloat (budget (form pg)) = NaN
      \<and> map_of (trip_payload (snd (travelForm_submit_begin pg))) ''budget'' = Some (VNum NaN)
      \<and> json_field (body (last (requests (fst (travelForm_submit_begin pg))))) ''budget''
          = Some JNull
      \<and> map_of (requestData_v1 pg) ''budget'' = Some (VNum NaN)
      \<and> json_field (body (last (requests (travelForm_submit_begin_v1 pg)))) ''budget''
          = Some JNull)"
proof -
  have a: "requests (fst (travelForm_submit_begin pg))
           = requests pg @ [post ''http://localhost:8000/plan-trip''
                              (trip_payload (snd (travelForm_submit_begin pg)))]"
    by (simp add: submit_begin_fields)
  have b: "map_of (trip_payload (snd (travelForm_submit_begin pg))) ''budget''
           = Some (VNum (parseFloat (budget (form pg))))"
    by (simp add: submit_begin_fields trip_payload_def read_form_def)
  have c: "requests (travelForm_submit_begin_v1 pg)
           = requests pg @ [post ''http://localhost:8000/plan-trip'' (requestData_v1 pg)]"
    by (simp add: submit_begin_v1_fields)
  have d: "map_of (requestData_v1 pg) ''budget'' = Some (VNum (parseFloat (budget (form pg))))"
    by (simp add: requestData_v1_def)
  have e: "parseFloat s = NaN \<longleftrightarrow> non_numeric s"
    by (rule parseFloat_NaN_iff)
  have f: "non_numeric (budget (form pg)) \<longrightarrow>
        parseFloat (budget (form pg)) = NaN
      \<and> map_of (trip_payload (snd (travelForm_submit_begin pg))) ''budget'' = Some (VNum NaN)
      \<and> json_field (body (last (requests (fst (travelForm_submit_begin pg))))) ''budget''
          = Some JNull
      \<and> map_of (requestData_v1 pg) ''budget'' = Some (VNum NaN)
      \<and> json_field (body (last (requests (travelForm_submit_begin_v1 pg)))) ''budget''
          = Some JNull"
  proof
    assume "non_numeric (budget (form pg))"
    then have n: "parseFloat (budget (form pg)) = NaN"
      by (simp add: parseFloat_NaN_iff)
    have f1: "map_of (trip_payload (snd (travelForm_submit_begin pg))) ''budget''
                = Some (VNum NaN)"
      using b by (simp add: n)
    have f2: "json_field (body (last (requests (fst (travelForm_submit_begin pg))))) ''budget''
                = Some JNull"
      by (simp add: submit_begin_fields trip_payload_def read_form_def n post_def
          JSON_stringify_def json_field_def)
    have f3: "map_of (requestData_v1 pg) ''budget'' = Some (VNum NaN)"
      using d by (simp add: n)
    have f4: "json_field (body (last (requests (travelForm_submit_begin_v1 pg)))) ''budget''
                = Some JNull"
      by (simp add: submit_begin_v1_fields requestData_v1_def n post_def
          JSON_stringify_def json_field_def)
    show "parseFloat (budget (form pg)) = NaN
      \<and> map_of (trip_payload (snd (travelForm_submit_begin pg))) ''budget'' = Some (VNum NaN)
      \<and> json_field (body (last (requests (fst (travelForm_submit_begin pg))))) ''budget''
          = Some JNull
      \<and> map_of (requestData_v1 pg) ''budget'' = Some (VNum NaN)
      \<and> json_field (body (last (requests (travelForm_submit_begin_v1 pg)))) ''budget''
          = Some JNull"
      by (intro conjI) (rule n f1 f2 f3 f4)+
  qed
  show ?thesis
    by (intro conjI) (rule a b c d e f)+
qed

theorem non_numeric_budget_is_forwarded_witness:
  "non_numeric (budget (form (example_page\<lparr>form := example_form\<lparr>budget := ''abc''\<rparr>\<rparr>)))
   \<and> parseFloat ''abc'' = NaN
   \<and> length (requests (fst (travelForm_submit_begin
        (example_page\<lparr>form := example_form\<lparr>budget := ''abc''\<rparr>\<rparr>)))) = 1
   \<and> json_field (body (last (requests (fst (travelForm_submit_begin
        (example_page\<lparr>form := example_form\<lparr>budget := ''abc''\<rparr>\<rparr>)))))) ''budget'' = Some JNull"
proof -
  have h: "non_numeric (budget (form (example_page\<lparr>form := example_form\<lparr>budget := ''abc''\<rparr>\<rparr>)))"
    by (simp add: non_numeric_def starts_numeral_def is_ws_def is_digit_def)
  have r: "requests example_page = []"
    by (simp add: example_page_def)
  note th = non_numeric_budget_is_forwarded
    [of "example_page\<lparr>form := example_form\<lparr>budget := ''abc''\<rparr>\<rparr>" "''abc''"]
  note th6 = th [THEN conjunct2, THEN conjunct2, THEN conjunct2, THEN conjunct2,
                 THEN conjunct2, THEN mp, OF h]
  have a: "parseFloat ''abc'' = NaN"
    using th6 [THEN conjunct1] by (simp add: example_form_def)
  have b: "length (requests (fst (travelForm_submit_begin
        (example_page\<lparr>form := example_form\<lparr>budget := ''abc''\<rparr>\<rparr>)))) = 1"
    using th [THEN conjunct1] by (simp add: r)
  have c: "json_field (body (last (requests (fst (travelForm_submit_begin
        (example_page\<lparr>form := example_form\<lparr>budget := ''abc''\<rparr>\<rparr>)))))) ''budget'' = Some JNull"
    using th6 [THEN conjunct2, THEN conjunct2, THEN conjunct1] .
  show ?thesis
    using h a b c by simp
qed

end
